theory Spec2Isabelle
  imports Main
begin

section \<open>Data model\<close>

text \<open>
  The persisted documents of the billing backend (User, Subscription, Payment,
  SubscriptionPlan), the payloads the billing provider sends, and the provider's own
  state as far as the handlers read or write it. Dates are milliseconds since the
  epoch, amounts are cents, a nullable field is an \<open>option\<close>. Status and type fields
  are strings, as in the documents; the schema's enumerations are checked when a
  document is created or saved.
\<close>

datatype error =
    Error string
  | TypeError
  | ValidationError
  | DuplicateKey
  | ProviderError
  | DbError

fun message :: "error \<Rightarrow> string" where
  "message (Error m) = m"
| "message TypeError = ''TypeError''"
| "message ValidationError = ''ValidationError''"
| "message DuplicateKey = ''E11000 duplicate key error''"
| "message ProviderError = ''ProviderError''"
| "message DbError = ''DbError''"

datatype outcome = Done | Threw error

record user =
  uid :: nat
  email :: string
  hasEverSubscribed :: bool

record subscription =
  sub_id :: nat
  sub_user :: nat
  sub_stripeSubscriptionId :: string
  sub_stripeCustomerId :: string
  sub_stripePriceId :: string
  sub_status :: string
  sub_currentPeriodStart :: int
  sub_currentPeriodEnd :: int
  sub_trialStart :: "int option"
  sub_trialEnd :: "int option"
  sub_canceledAt :: "int option"
  sub_cancelAtPeriodEnd :: bool
  sub_isFirstSubscription :: bool
  sub_subscriptionType :: string
  sub_amount :: int
  sub_currency :: string
  sub_interval :: "string option"
  sub_intervalCount :: int

record cardDetails =
  brand :: "string option"
  last4 :: "string option"
  expMonth :: "int option"
  expYear :: "int option"
  funding :: "string option"
  country :: "string option"

record payment =
  pay_id :: nat
  pay_user :: nat
  pay_subscription :: nat
  pay_stripePaymentIntentId :: string
  pay_stripeInvoiceId :: "string option"
  pay_amount :: int
  pay_currency :: string
  pay_status :: string
  pay_paymentMethod :: "string option"
  pay_cardDetails :: "cardDetails option"
  pay_paymentType :: string
  pay_description :: string
  pay_receiptUrl :: "string option"
  pay_failureReason :: "string option"
  pay_refunded :: bool
  pay_refundAmount :: int

record plan =
  plan_name :: string
  plan_stripePriceId :: "string option"
  plan_amount :: int
  plan_currency :: string
  plan_interval :: "string option"
  plan_intervalCount :: "int option"
  plan_planType :: string
  plan_isActive :: bool

subsection \<open>Provider payloads\<close>

record metadata =
  md_userId :: "nat option"
  md_planType :: "string option"
  md_isFirstSubscription :: "string option"
  md_isReturningUser :: "string option"
  md_subscriptionId :: "nat option"
  md_paymentType :: "string option"

record stripe_item =
  item_id :: string
  item_price :: string

record stripe_subscription =
  ss_id :: string
  ss_customer :: string
  ss_status :: string
  ss_metadata :: metadata
  ss_items :: "stripe_item list"
  ss_current_period_start :: "int option"
  ss_current_period_end :: "int option"
  ss_trial_start :: "int option"
  ss_trial_end :: "int option"
  ss_cancel_at_period_end :: bool
  ss_canceled_at :: "int option"

record session =
  cs_id :: string
  cs_metadata :: metadata

record invoice =
  inv_id :: string
  inv_subscription :: "string option"
  inv_billing_reason :: "string option"
  inv_payment_intent :: "string option"
  inv_charge :: "string option"
  inv_amount_paid :: "int option"
  inv_amount_due :: "int option"
  inv_currency :: "string option"
  inv_failure_message :: "string option"

record payment_intent =
  pi_id :: string
  pi_amount :: int
  pi_currency :: string
  pi_status :: string
  pi_invoice :: "string option"
  pi_metadata :: metadata
  pi_receipt_url :: "string option"

record stripe_card =
  card_brand :: "string option"
  card_last4 :: "string option"
  card_exp_month :: "int option"
  card_exp_year :: "int option"
  card_funding :: "string option"
  card_country :: "string option"

record payment_method =
  pm_id :: string
  pm_type :: string
  pm_card :: "stripe_card option"

datatype pm_ref = PMString string | PMObject payment_method

subsection \<open>The world: the local store and the provider\<close>

text \<open>
  \<open>users\<close>, \<open>subscriptions\<close>, \<open>payments\<close> and \<open>plans\<close> are the collections, in
  insertion order (\<open>findOne\<close> returns the first match). The \<open>remote_\<close> fields are the
  provider's objects by id: a retrieve of an id that is not listed fails.
  \<open>remote_update_fails\<close> makes the provider's subscription update fail.
  \<open>db_down\<close> makes the store's operations fail where the model lets them fail: the
  lookups of the plan and trial services, and the store calls of the two event
  handlers that have no other way to fail (\<open>checkout.session.completed\<close> and
  \<open>customer.subscription.trial_will_end\<close>).
  \<open>obj_InvoiceId\<close> is the one field of the webhook module's global debugging object
  that is read back.
\<close>

record world =
  users :: "user list"
  subscriptions :: "subscription list"
  payments :: "payment list"
  plans :: "plan list"
  remote_subscriptions :: "(string \<times> stripe_subscription) list"
  remote_paymentIntents :: "(string \<times> pm_ref option) list"
  remote_invoices :: "(string \<times> invoice) list"
  remote_charges :: "(string \<times> string option) list"
  remote_update_fails :: bool
  db_down :: bool
  obj_InvoiceId :: "string option"

subsection \<open>JavaScript values of the result objects\<close>

datatype jsval =
    JUndefined
  | JNull
  | JBool bool
  | JNum int
  | JStr string
  | JDate int
  | JObj "(string \<times> jsval) list"

type_synonym jsobj = "(string \<times> jsval) list"

text \<open>Reading a property that the object does not have gives \<open>undefined\<close>.\<close>

definition get_prop :: "jsobj \<Rightarrow> string \<Rightarrow> jsval" where
  "get_prop obj k = (case map_of obj k of None \<Rightarrow> JUndefined | Some v \<Rightarrow> v)"

fun truthy :: "jsval \<Rightarrow> bool" where
  "truthy JUndefined = False"
| "truthy JNull = False"
| "truthy (JBool b) = b"
| "truthy (JNum n) = (n \<noteq> 0)"
| "truthy (JStr s) = (s \<noteq> [])"
| "truthy (JDate d) = True"
| "truthy (JObj obj) = True"

definition truthy_str :: "string option \<Rightarrow> bool" where
  "truthy_str v = (case v of None \<Rightarrow> False | Some s \<Rightarrow> s \<noteq> [])"

definition str_or_null :: "string option \<Rightarrow> string option" where
  "str_or_null v = (if truthy_str v then v else None)"

definition num_or_null :: "int option \<Rightarrow> int option" where
  "num_or_null v = (case v of None \<Rightarrow> None | Some n \<Rightarrow> if n = 0 then None else Some n)"

definition num_or :: "int option \<Rightarrow> int \<Rightarrow> int" where
  "num_or v d = (case v of None \<Rightarrow> d | Some n \<Rightarrow> if n = 0 then d else n)"

definition str_or :: "string option \<Rightarrow> string \<Rightarrow> string" where
  "str_or v d = (case v of None \<Rightarrow> d | Some s \<Rightarrow> if s = [] then d else s)"

definition date_js :: "int option \<Rightarrow> jsval" where
  "date_js d = (case d of None \<Rightarrow> JNull | Some t \<Rightarrow> JDate t)"

definition str_js :: "string option \<Rightarrow> jsval" where
  "str_js s = (case s of None \<Rightarrow> JUndefined | Some t \<Rightarrow> JStr t)"

section \<open>Store operations\<close>

definition active_statuses :: "string list" where
  "active_statuses = [''active'', ''trialing'']"

definition subscription_statuses :: "string list" where
  "subscription_statuses = [''incomplete'', ''incomplete_expired'', ''trialing'',
     ''active'', ''past_due'', ''canceled'', ''unpaid'']"

definition subscription_types :: "string list" where
  "subscription_types = [''initial'', ''recurring'']"

definition intervals :: "string list" where
  "intervals = [''day'', ''week'', ''month'', ''year'']"

definition payment_statuses :: "string list" where
  "payment_statuses = [''requires_payment_method'', ''requires_confirmation'',
     ''requires_action'', ''processing'', ''requires_capture'', ''canceled'',
     ''succeeded'']"

definition payment_types :: "string list" where
  "payment_types = [''initial_payment'', ''recurring_payment'', ''upgrade_payment'']"

definition Subscription_valid :: "subscription \<Rightarrow> bool" where
  "Subscription_valid s \<longleftrightarrow>
     sub_status s \<in> set subscription_statuses \<and>
     sub_subscriptionType s \<in> set subscription_types \<and>
     (case sub_interval s of None \<Rightarrow> True | Some i \<Rightarrow> i \<in> set intervals) \<and>
     sub_stripeSubscriptionId s \<noteq> [] \<and> sub_stripeCustomerId s \<noteq> [] \<and>
     sub_stripePriceId s \<noteq> []"

definition Payment_valid :: "payment \<Rightarrow> bool" where
  "Payment_valid p \<longleftrightarrow>
     pay_status p \<in> set payment_statuses \<and>
     pay_paymentType p \<in> set payment_types \<and>
     pay_stripePaymentIntentId p \<noteq> [] \<and> pay_description p \<noteq> []"

definition fresh_id :: "nat list \<Rightarrow> nat" where
  "fresh_id ids = Suc (foldr max ids 0)"

definition User_findById :: "world \<Rightarrow> nat \<Rightarrow> user option" where
  "User_findById w i = find (\<lambda>u. uid u = i) (users w)"

definition User_save :: "user \<Rightarrow> world \<Rightarrow> world" where
  "User_save u w = w\<lparr>users := map (\<lambda>r. if uid r = uid u then u else r) (users w)\<rparr>"

definition Subscription_findOne :: "world \<Rightarrow> (subscription \<Rightarrow> bool) \<Rightarrow> subscription option" where
  "Subscription_findOne w P = find P (subscriptions w)"

definition Subscription_save :: "subscription \<Rightarrow> world \<Rightarrow> error + world" where
  "Subscription_save s w =
     (if \<not> Subscription_valid s then Inl ValidationError
      else Inr (w\<lparr>subscriptions :=
                   map (\<lambda>r. if sub_id r = sub_id s then s else r) (subscriptions w)\<rparr>))"

definition Subscription_create :: "subscription \<Rightarrow> world \<Rightarrow> error + world" where
  "Subscription_create s w =
     (if \<not> Subscription_valid s then Inl ValidationError
      else if \<exists>r \<in> set (subscriptions w).
                sub_stripeSubscriptionId r = sub_stripeSubscriptionId s
      then Inl DuplicateKey
      else Inr (w\<lparr>subscriptions := subscriptions w @
                   [s\<lparr>sub_id := fresh_id (map sub_id (subscriptions w))\<rparr>]\<rparr>))"

definition Payment_findOne :: "world \<Rightarrow> (payment \<Rightarrow> bool) \<Rightarrow> payment option" where
  "Payment_findOne w P = find P (payments w)"

definition Payment_save :: "payment \<Rightarrow> world \<Rightarrow> error + world" where
  "Payment_save p w =
     (if \<not> Payment_valid p then Inl ValidationError
      else Inr (w\<lparr>payments := map (\<lambda>r. if pay_id r = pay_id p then p else r) (payments w)\<rparr>))"

definition Payment_create :: "payment \<Rightarrow> world \<Rightarrow> error + world" where
  "Payment_create p w =
     (if \<not> Payment_valid p then Inl ValidationError
      else if \<exists>r \<in> set (payments w).
                pay_stripePaymentIntentId r = pay_stripePaymentIntentId p
      then Inl DuplicateKey
      else Inr (w\<lparr>payments := payments w @
                   [p\<lparr>pay_id := fresh_id (map pay_id (payments w))\<rparr>]\<rparr>))"

definition getRecurringPlan :: "world \<Rightarrow> plan option" where
  "getRecurringPlan w = find (\<lambda>p. plan_planType p = ''recurring'' \<and> plan_isActive p) (plans w)"

definition getInitialPlan :: "world \<Rightarrow> plan option" where
  "getInitialPlan w = find (\<lambda>p. plan_planType p = ''initial'' \<and> plan_isActive p) (plans w)"

text \<open>
  The store calls that fail when the store is down: the lookups of the plan service
  and of the trial service, which run inside a \<open>try\<close> that catches the failure, and
  the calls of \<open>handleCheckoutSessionCompleted\<close> and \<open>handleTrialWillEnd\<close>, which are
  awaited outside any \<open>try\<close>.
\<close>

definition User_findById_io :: "world \<Rightarrow> nat \<Rightarrow> error + user option" where
  "User_findById_io w i = (if db_down w then Inl DbError else Inr (User_findById w i))"

definition User_save_io :: "user \<Rightarrow> world \<Rightarrow> error + world" where
  "User_save_io u w = (if db_down w then Inl DbError else Inr (User_save u w))"

definition Subscription_findOne_io ::
  "world \<Rightarrow> (subscription \<Rightarrow> bool) \<Rightarrow> error + subscription option" where
  "Subscription_findOne_io w P = (if db_down w then Inl DbError else Inr (find P (subscriptions w)))"

definition getRecurringPlan_io :: "world \<Rightarrow> error + plan option" where
  "getRecurringPlan_io w = (if db_down w then Inl DbError else Inr (getRecurringPlan w))"

section \<open>Plan service\<close>

definition is_active :: "subscription \<Rightarrow> bool" where
  "is_active s \<longleftrightarrow> sub_status s \<in> set active_statuses"

definition getRecommendedPlan :: "user \<Rightarrow> world \<Rightarrow> jsobj" where
  "getRecommendedPlan u w =
     (case Subscription_findOne_io w (\<lambda>s. sub_user s = uid u \<and> is_active s) of
        Inl e \<Rightarrow> [(''planType'', JStr ''initial''), (''reason'', JStr ''error_fallback''),
                  (''skipInitial'', JBool False), (''error'', JStr (message e))]
      | Inr (Some s) \<Rightarrow>
          [(''planType'', JStr ''existing''), (''reason'', JStr ''user_has_active_subscription''),
           (''subscription'', JNum (int (sub_id s)))]
      | Inr None \<Rightarrow>
          (case Subscription_findOne_io w (\<lambda>s. sub_user s = uid u) of
             Inl e \<Rightarrow> [(''planType'', JStr ''initial''), (''reason'', JStr ''error_fallback''),
                       (''skipInitial'', JBool False), (''error'', JStr (message e))]
           | Inr hasAnySubscription \<Rightarrow>
               if hasAnySubscription \<noteq> None \<or> hasEverSubscribed u
               then [(''planType'', JStr ''recurring''), (''reason'', JStr ''returning_user''),
                     (''skipInitial'', JBool True)]
               else [(''planType'', JStr ''initial''), (''reason'', JStr ''new_user''),
                     (''skipInitial'', JBool False)]))"

section \<open>Trial service\<close>

text \<open>The fields that the trial service's upgrade assigns to the subscription.\<close>

definition upgraded_trial :: "plan \<Rightarrow> string \<Rightarrow> subscription \<Rightarrow> subscription" where
  "upgraded_trial recurringPlan price initialSubscription =
     initialSubscription\<lparr>
       sub_subscriptionType := ''recurring'',
       sub_stripePriceId := price,
       sub_amount := plan_amount recurringPlan,
       sub_interval := plan_interval recurringPlan,
       sub_isFirstSubscription := False,
       sub_trialStart := None,
       sub_trialEnd := None\<rparr>"

text \<open>
  The trial service's upgrade changes the local row only; it makes no call to the
  provider. A failure is returned as \<open>success: false\<close>.
\<close>

definition upgradeToRecurringSubscription_trial ::
  "subscription \<Rightarrow> world \<Rightarrow> jsobj \<times> world" where
  "upgradeToRecurringSubscription_trial initialSubscription w =
     (let failure = (\<lambda>e. ([(''success'', JBool False), (''error'', JStr (message e))], w)) in
      case getRecurringPlan_io w of
        Inl e \<Rightarrow> failure e
      | Inr None \<Rightarrow> failure (Error ''Recurring plan not found'')
      | Inr (Some recurringPlan) \<Rightarrow>
          (case plan_stripePriceId recurringPlan of
             None \<Rightarrow> failure ValidationError
           | Some price \<Rightarrow>
               (let s = upgraded_trial recurringPlan price initialSubscription
                in case Subscription_save s w of
                     Inl e \<Rightarrow> failure e
                   | Inr w' \<Rightarrow>
                       ([(''success'', JBool True),
                         (''subscriptionId'', JNum (int (sub_id s))),
                         (''newAmount'', JNum (plan_amount recurringPlan)),
                         (''newInterval'', str_js (plan_interval recurringPlan))], w'))))"

definition checkTrialStatus :: "user \<Rightarrow> int \<Rightarrow> world \<Rightarrow> jsobj \<times> world" where
  "checkTrialStatus u now w =
     (let failure = (\<lambda>e. ([(''isInTrial'', JBool False), (''shouldCharge'', JBool False),
                           (''action'', JStr ''error''), (''error'', JStr (message e))], w));
          none = ([(''isInTrial'', JBool False), (''shouldCharge'', JBool False),
                   (''action'', JStr ''none'')], w) in
      case Subscription_findOne_io w
             (\<lambda>s. sub_user s = uid u \<and> sub_subscriptionType s = ''initial'' \<and> is_active s) of
        Inl e \<Rightarrow> failure e
      | Inr None \<Rightarrow> none
      | Inr (Some initialSubscription) \<Rightarrow>
          (case sub_trialEnd initialSubscription of
             None \<Rightarrow> none
           | Some trialEnd \<Rightarrow>
               if now < trialEnd
               then ([(''isInTrial'', JBool True), (''shouldCharge'', JBool False),
                      (''action'', JStr ''trial_active'')], w)
               else
                 (case Subscription_findOne_io w
                         (\<lambda>s. sub_user s = uid u \<and> sub_subscriptionType s = ''recurring'' \<and>
                              is_active s) of
                    Inl e \<Rightarrow> failure e
                  | Inr (Some recurringSubscription) \<Rightarrow>
                      ([(''isInTrial'', JBool False), (''shouldCharge'', JBool False),
                        (''action'', JStr ''already_recurring'')], w)
                  | Inr None \<Rightarrow>
                      (let (upgradeResult, w') =
                             upgradeToRecurringSubscription_trial initialSubscription w
                       in ([(''isInTrial'', JBool False), (''shouldCharge'', JBool True),
                            (''action'', JStr ''upgraded_to_recurring''),
                            (''upgradeResult'', JObj upgradeResult)], w')))))"

definition shouldChargeUser :: "user \<Rightarrow> int \<Rightarrow> world \<Rightarrow> jsobj \<times> world" where
  "shouldChargeUser u now w =
     (let (trialStatus, w') = checkTrialStatus u now w in
      if truthy (get_prop trialStatus ''shouldCharge'')
      then ([(''shouldCharge'', JBool True), (''reason'', JStr ''trial_ended''),
             (''subscription'', get_prop trialStatus ''upgradeResult'')], w')
      else if truthy (get_prop trialStatus ''isInTrial'')
      then ([(''shouldCharge'', JBool False), (''reason'', JStr ''in_trial''),
             (''trialEnd'', get_prop trialStatus ''trialEnd'')], w')
      else ([(''shouldCharge'', JBool False), (''reason'', get_prop trialStatus ''action'')], w'))"

section \<open>Webhook controller: helpers\<close>

text \<open>
  The handlers are modelled as functions from the world to an outcome and the world
  they leave: \<open>Done\<close> when the handler returns, \<open>Threw e\<close> when an error leaves it.
  Failures of the store that are modelled are the unique indexes (the subscription's
  provider id, the payment's intent id) and the schema's enumerations and required
  strings, and a store that is down in \<open>handleCheckoutSessionCompleted\<close> and
  \<open>handleTrialWillEnd\<close>; in the other handlers the reads of the store succeed.
  Logging, the assignments to the module's global object that are never read back,
  and the confirmation e-mail (whose failure the handler catches) are left out.
\<close>

text \<open>
  \<open>cardDetails\<close> is a nested path of the payment schema (its six fields sit under
  the key, which has no type of its own). \<open>pay_cardDetails\<close> is what was stored:
  \<open>None\<close> when the document was created with \<open>null\<close>, so that every field has its
  default \<open>null\<close>. Reading \<open>payment.cardDetails\<close> from a document gives an object
  in both cases.
\<close>

definition null_or :: "('a \<Rightarrow> jsval) \<Rightarrow> 'a option \<Rightarrow> jsval" where
  "null_or f v = (case v of None \<Rightarrow> JNull | Some x \<Rightarrow> f x)"

definition read_cardDetails :: "payment \<Rightarrow> jsval" where
  "read_cardDetails payment =
     (case pay_cardDetails payment of
        None \<Rightarrow>
          JObj [(''brand'', JNull), (''last4'', JNull), (''expMonth'', JNull),
                (''expYear'', JNull), (''funding'', JNull), (''country'', JNull)]
      | Some c \<Rightarrow>
          JObj [(''brand'', null_or JStr (brand c)), (''last4'', null_or JStr (last4 c)),
                (''expMonth'', null_or JNum (expMonth c)),
                (''expYear'', null_or JNum (expYear c)),
                (''funding'', null_or JStr (funding c)),
                (''country'', null_or JStr (country c))])"

text \<open>
  A provider timestamp is in seconds. \<open>null\<close>, a non-positive number and a number
  beyond the range of a JavaScript date give \<open>null\<close>.
\<close>

definition toDateFromUnix :: "int option \<Rightarrow> int option" where
  "toDateFromUnix v =
     (case v of
        None \<Rightarrow> None
      | Some num \<Rightarrow>
          if num \<le> 0 then None
          else if 8640000000000000 < num * 1000 then None
          else Some (num * 1000))"

definition stripe_subscriptions_retrieve :: "world \<Rightarrow> string \<Rightarrow> error + stripe_subscription" where
  "stripe_subscriptions_retrieve w i =
     (case map_of (remote_subscriptions w) i of
        None \<Rightarrow> Inl ProviderError
      | Some s \<Rightarrow> Inr s)"

text \<open>
  The provider's update of a subscription: the item named by \<open>itemId\<close> gets the new
  price (an absent price leaves it) and the metadata's plan type becomes recurring.
\<close>

definition stripe_subscriptions_update ::
  "world \<Rightarrow> string \<Rightarrow> string \<Rightarrow> string option \<Rightarrow> error + world" where
  "stripe_subscriptions_update w i itemId price =
     (if remote_update_fails w then Inl ProviderError
      else case map_of (remote_subscriptions w) i of
        None \<Rightarrow> Inl ProviderError
      | Some rs \<Rightarrow>
          (let rs' = rs\<lparr>
                 ss_items := map (\<lambda>it. if item_id it = itemId
                                        then (case price of None \<Rightarrow> it
                                              | Some p \<Rightarrow> it\<lparr>item_price := p\<rparr>)
                                        else it) (ss_items rs),
                 ss_metadata := (ss_metadata rs)\<lparr>md_planType := Some ''recurring''\<rparr>\<rparr>
           in Inr (w\<lparr>remote_subscriptions :=
                       map (\<lambda>(k, v). if k = i then (k, rs') else (k, v))
                           (remote_subscriptions w)\<rparr>)))"

definition ensureStripeSubscription :: "world \<Rightarrow> stripe_subscription \<Rightarrow> stripe_subscription" where
  "ensureStripeSubscription w maybeSubscription =
     (if toDateFromUnix (ss_current_period_start maybeSubscription) \<noteq> None \<and>
         toDateFromUnix (ss_current_period_end maybeSubscription) \<noteq> None
      then maybeSubscription
      else case stripe_subscriptions_retrieve w (ss_id maybeSubscription) of
             Inl e \<Rightarrow> maybeSubscription
           | Inr full \<Rightarrow> full)"

definition card_of :: "stripe_card \<Rightarrow> cardDetails" where
  "card_of c =
     \<lparr>brand = str_or_null (card_brand c),
      last4 = str_or_null (card_last4 c),
      expMonth = num_or_null (card_exp_month c),
      expYear = num_or_null (card_exp_year c),
      funding = str_or_null (card_funding c),
      country = str_or_null (card_country c)\<rparr>"

text \<open>
  The payment intent is retrieved from the provider with its payment method expanded;
  every failure inside gives \<open>(null, null)\<close>.
\<close>

definition extractCardDetailsFromPaymentIntent ::
  "world \<Rightarrow> string \<Rightarrow> cardDetails option \<times> string option" where
  "extractCardDetailsFromPaymentIntent w paymentIntentId =
     (case map_of (remote_paymentIntents w) paymentIntentId of
        None \<Rightarrow> (None, None)
      | Some None \<Rightarrow> (None, None)
      | Some (Some (PMString s)) \<Rightarrow> if s = [] then (None, None) else (None, Some s)
      | Some (Some (PMObject paymentMethod)) \<Rightarrow>
          (if pm_type paymentMethod \<noteq> ''card'' then (None, Some (pm_id paymentMethod))
           else case pm_card paymentMethod of
                  None \<Rightarrow> (None, Some (pm_id paymentMethod))
                | Some c \<Rightarrow> (Some (card_of c), Some (pm_id paymentMethod))))"

definition getInvoicePaymentIntentId :: "world \<Rightarrow> invoice \<Rightarrow> string option" where
  "getInvoicePaymentIntentId w invoice =
     (if truthy_str (inv_payment_intent invoice) then inv_payment_intent invoice
      else case inv_charge invoice of
             None \<Rightarrow> inv_payment_intent invoice
           | Some c \<Rightarrow>
               if c = [] then inv_payment_intent invoice
               else (case map_of (remote_charges w) c of
                       None \<Rightarrow> inv_payment_intent invoice
                     | Some charge_payment_intent \<Rightarrow> charge_payment_intent))"

definition shouldUpgradeToRecurring :: "subscription \<Rightarrow> int \<Rightarrow> bool" where
  "shouldUpgradeToRecurring s now \<longleftrightarrow>
     sub_isFirstSubscription s \<and> sub_subscriptionType s = ''initial'' \<and>
     (case sub_trialEnd s of None \<Rightarrow> False | Some t \<Rightarrow> t \<le> now)"

text \<open>
  The webhook controller's upgrade: the provider's price swap first, then the local
  row. Every failure is caught and logged; nothing is returned either way.
\<close>

definition upgraded :: "plan \<Rightarrow> string \<Rightarrow> subscription \<Rightarrow> subscription" where
  "upgraded recurringPlan price subscription =
     subscription\<lparr>
       sub_stripePriceId := price,
       sub_subscriptionType := ''recurring'',
       sub_amount := plan_amount recurringPlan,
       sub_isFirstSubscription := False\<rparr>"

definition upgradeToRecurringSubscription :: "subscription \<Rightarrow> world \<Rightarrow> world" where
  "upgradeToRecurringSubscription s w =
     (case getRecurringPlan w of
        None \<Rightarrow> w
      | Some recurringPlan \<Rightarrow>
          (case stripe_subscriptions_retrieve w (sub_stripeSubscriptionId s) of
             Inl e \<Rightarrow> w
           | Inr currentSubscription \<Rightarrow>
               (case ss_items currentSubscription of
                  [] \<Rightarrow> w
                | item # rest \<Rightarrow>
                    (case stripe_subscriptions_update w (sub_stripeSubscriptionId s)
                            (item_id item) (plan_stripePriceId recurringPlan) of
                       Inl e \<Rightarrow> w
                     | Inr w1 \<Rightarrow>
                         (case plan_stripePriceId recurringPlan of
                            None \<Rightarrow> w1
                          | Some price \<Rightarrow>
                              (case Subscription_save (upgraded recurringPlan price s) w1 of
                                 Inl e \<Rightarrow> w1
                               | Inr w2 \<Rightarrow> w2))))))"

section \<open>Webhook controller: subscription events\<close>

text \<open>
  \<open>checkout.session.completed\<close>: the user's lookup and the save of the flag are awaited
  outside any \<open>try\<close>, so a failing store leaves the handler as an error.
\<close>

definition handleCheckoutSessionCompleted :: "session \<Rightarrow> world \<Rightarrow> outcome \<times> world" where
  "handleCheckoutSessionCompleted s w =
     (case md_userId (cs_metadata s) of
        None \<Rightarrow> (Done, w)
      | Some userId \<Rightarrow>
          (case User_findById_io w userId of
             Inl e \<Rightarrow> (Threw e, w)
           | Inr None \<Rightarrow> (Done, w)
           | Inr (Some u) \<Rightarrow>
               if md_isFirstSubscription (cs_metadata s) = Some ''true''
               then (case User_save_io (u\<lparr>hasEverSubscribed := True\<rparr>) w of
                       Inl e \<Rightarrow> (Threw e, w)
                     | Inr w' \<Rightarrow> (Done, w'))
               else (Done, w)))"

definition the_str :: "string option \<Rightarrow> string" where
  "the_str v = (case v of None \<Rightarrow> [] | Some s \<Rightarrow> s)"

definition week_ms :: int where
  "week_ms = 7 * 24 * 60 * 60 * 1000"

text \<open>
  The row that \<open>subscription_created\<close> stores. \<open>trials\<close> are the two trial
  dates as the handler decided them.
\<close>

definition new_subscription ::
  "stripe_subscription \<Rightarrow> stripe_subscription \<Rightarrow> user \<Rightarrow> plan \<Rightarrow> int \<Rightarrow>
   int option \<times> int option \<Rightarrow> string option \<Rightarrow> int \<Rightarrow> subscription" where
  "new_subscription stripeSubscription fullStripeSub u pl now trials interval intervalCount =
     \<lparr>sub_id = 0,
      sub_user = uid u,
      sub_stripeSubscriptionId = ss_id stripeSubscription,
      sub_stripeCustomerId = ss_customer stripeSubscription,
      sub_stripePriceId = the_str (plan_stripePriceId pl),
      sub_status = ss_status stripeSubscription,
      sub_currentPeriodStart =
        (case toDateFromUnix (ss_current_period_start fullStripeSub) of
           None \<Rightarrow> now | Some d \<Rightarrow> d),
      sub_currentPeriodEnd =
        (case toDateFromUnix (ss_current_period_end fullStripeSub) of
           None \<Rightarrow> now + week_ms | Some d \<Rightarrow> d),
      sub_trialStart = fst trials,
      sub_trialEnd = snd trials,
      sub_canceledAt = None,
      sub_cancelAtPeriodEnd = False,
      sub_isFirstSubscription =
        (md_isFirstSubscription (ss_metadata stripeSubscription) = Some ''true''),
      sub_subscriptionType = the_str (md_planType (ss_metadata stripeSubscription)),
      sub_amount = plan_amount pl,
      sub_currency = plan_currency pl,
      sub_interval = interval,
      sub_intervalCount = intervalCount\<rparr>"

definition handleSubscriptionCreated ::
  "int \<Rightarrow> stripe_subscription \<Rightarrow> world \<Rightarrow> outcome \<times> world" where
  "handleSubscriptionCreated now stripeSubscription w =
     (case md_userId (ss_metadata stripeSubscription) of
        None \<Rightarrow> (Done, w)
      | Some userId \<Rightarrow>
          (case User_findById w userId of
             None \<Rightarrow> (Done, w)
           | Some u \<Rightarrow>
               (case ss_items stripeSubscription of
                  [] \<Rightarrow> (Threw TypeError, w)
                | item # rest \<Rightarrow>
                    (case find (\<lambda>p. plan_stripePriceId p = Some (item_price item)) (plans w) of
                       None \<Rightarrow> (Done, w)
                     | Some pl \<Rightarrow>
                         (let fullStripeSub = ensureStripeSubscription w stripeSubscription;
                              trialStart = toDateFromUnix (ss_trial_start fullStripeSub);
                              trialEnd = toDateFromUnix (ss_trial_end fullStripeSub)
                          in case Subscription_create
                                    (new_subscription stripeSubscription fullStripeSub u pl now
                                       (trialStart, trialEnd)
                                       (Some (str_or (plan_interval pl) ''week''))
                                       (num_or (plan_intervalCount pl) 1)) w of
                               Inl e \<Rightarrow> (Threw e, w)
                             | Inr w' \<Rightarrow> (Done, w'))))))"

text \<open>
  The second variant of the webhook controller reads \<open>isReturningUser\<close> from the
  metadata, stores no trial for a returning user and marks the user.
\<close>

definition handleSubscriptionCreated_alt ::
  "int \<Rightarrow> stripe_subscription \<Rightarrow> world \<Rightarrow> outcome \<times> world" where
  "handleSubscriptionCreated_alt now stripeSubscription w =
     (let isReturningUser =
            (md_isReturningUser (ss_metadata stripeSubscription) = Some ''true'') in
      case md_userId (ss_metadata stripeSubscription) of
        None \<Rightarrow> (Done, w)
      | Some userId \<Rightarrow>
          (case User_findById w userId of
             None \<Rightarrow> (Done, w)
           | Some u \<Rightarrow>
               (case ss_items stripeSubscription of
                  [] \<Rightarrow> (Threw TypeError, w)
                | item # rest \<Rightarrow>
                    (case find (\<lambda>p. plan_stripePriceId p = Some (item_price item)) (plans w) of
                       None \<Rightarrow> (Done, w)
                     | Some pl \<Rightarrow>
                         (let fullStripeSub = ensureStripeSubscription w stripeSubscription;
                              trialStart = toDateFromUnix (ss_trial_start fullStripeSub);
                              trialEnd = toDateFromUnix (ss_trial_end fullStripeSub);
                              finalTrialStart = (if isReturningUser then None else trialStart);
                              finalTrialEnd = (if isReturningUser then None else trialEnd)
                          in case Subscription_create
                                    (new_subscription stripeSubscription fullStripeSub u pl now
                                       (finalTrialStart, finalTrialEnd)
                                       (str_or_null (plan_interval pl))
                                       (case plan_intervalCount pl of None \<Rightarrow> 1 | Some n \<Rightarrow> n))
                                    w of
                               Inl e \<Rightarrow> (Threw e, w)
                             | Inr w' \<Rightarrow>
                                 if isReturningUser \<and> \<not> hasEverSubscribed u
                                 then (Done, User_save (u\<lparr>hasEverSubscribed := True\<rparr>) w')
                                 else (Done, w'))))))"

text \<open>
  The row that \<open>subscription_updated\<close> saves: the type moves to recurring when the
  row is initial, the event's price is the recurring plan's and the event is active;
  then status, period and cancellation are refreshed, a value the provider does not
  give keeping what was stored.
\<close>

definition updated_subscription ::
  "world \<Rightarrow> stripe_subscription \<Rightarrow> string \<Rightarrow> plan option \<Rightarrow> subscription \<Rightarrow> subscription" where
  "updated_subscription w stripeSubscription currentPriceId recurringPlan subscription =
     (let s1 =
            (case recurringPlan of
               None \<Rightarrow> subscription
             | Some rp \<Rightarrow>
                 if sub_subscriptionType subscription = ''initial'' \<and>
                    Some currentPriceId = plan_stripePriceId rp \<and>
                    ss_status stripeSubscription = ''active''
                 then upgraded rp currentPriceId subscription
                 else subscription);
          fullStripeSub = ensureStripeSubscription w stripeSubscription;
          updCurrentPeriodStart =
            (case toDateFromUnix (ss_current_period_start fullStripeSub) of
               None \<Rightarrow> sub_currentPeriodStart s1 | Some d \<Rightarrow> d);
          updCurrentPeriodEnd =
            (case toDateFromUnix (ss_current_period_end fullStripeSub) of
               None \<Rightarrow> sub_currentPeriodEnd s1 | Some d \<Rightarrow> d)
      in s1\<lparr>
           sub_status := str_or (Some (ss_status fullStripeSub)) (sub_status s1),
           sub_currentPeriodStart := updCurrentPeriodStart,
           sub_currentPeriodEnd := updCurrentPeriodEnd,
           sub_cancelAtPeriodEnd := ss_cancel_at_period_end stripeSubscription,
           sub_canceledAt :=
             (case toDateFromUnix (ss_canceled_at fullStripeSub) of
                None \<Rightarrow> sub_canceledAt s1 | Some d \<Rightarrow> Some d)\<rparr>)"

text \<open>
  Reading the recurring plan's price of a missing plan is a \<open>TypeError\<close>; the
  condition reads it only when the row is of the initial type.
\<close>

definition handleSubscriptionUpdated ::
  "int \<Rightarrow> stripe_subscription \<Rightarrow> world \<Rightarrow> outcome \<times> world" where
  "handleSubscriptionUpdated now stripeSubscription w =
     (case Subscription_findOne w
             (\<lambda>s. sub_stripeSubscriptionId s = ss_id stripeSubscription) of
        None \<Rightarrow> (Done, w)
      | Some subscription \<Rightarrow>
          (case ss_items stripeSubscription of
             [] \<Rightarrow> (Threw TypeError, w)
           | item # rest \<Rightarrow>
               (let currentPriceId = item_price item;
                    recurringPlan = getRecurringPlan w in
                if sub_subscriptionType subscription = ''initial'' \<and> recurringPlan = None
                then (Threw TypeError, w)
                else
                  (case Subscription_save
                          (updated_subscription w stripeSubscription currentPriceId
                             recurringPlan subscription) w of
                     Inl e \<Rightarrow> (Threw e, w)
                   | Inr w' \<Rightarrow> (Done, w')))))"

definition handleSubscriptionDeleted ::
  "int \<Rightarrow> stripe_subscription \<Rightarrow> world \<Rightarrow> outcome \<times> world" where
  "handleSubscriptionDeleted now stripeSubscription w =
     (case Subscription_findOne w
             (\<lambda>s. sub_stripeSubscriptionId s = ss_id stripeSubscription) of
        None \<Rightarrow> (Done, w)
      | Some subscription \<Rightarrow>
          (case Subscription_save
                  (subscription\<lparr>sub_status := ''canceled'', sub_canceledAt := Some now\<rparr>) w of
             Inl e \<Rightarrow> (Threw e, w)
           | Inr w' \<Rightarrow> (Done, w')))"

definition handleSubscriptionDeleted_alt ::
  "int \<Rightarrow> stripe_subscription \<Rightarrow> world \<Rightarrow> outcome \<times> world" where
  "handleSubscriptionDeleted_alt now stripeSubscription w =
     (case Subscription_findOne w
             (\<lambda>s. sub_stripeSubscriptionId s = ss_id stripeSubscription) of
        None \<Rightarrow> (Done, w)
      | Some subscription \<Rightarrow>
          (case Subscription_save
                  (subscription\<lparr>sub_status := ''canceled'', sub_canceledAt := Some now\<rparr>) w of
             Inl e \<Rightarrow> (Threw e, w)
           | Inr w' \<Rightarrow>
               (case User_findById w (sub_user subscription) of
                  None \<Rightarrow> (Done, w')
                | Some u \<Rightarrow>
                    if \<not> hasEverSubscribed u
                    then (Done, User_save (u\<lparr>hasEverSubscribed := True\<rparr>) w')
                    else (Done, w'))))"

text \<open>
  The handler looks the subscription up and only logs; the lookup is awaited outside
  any \<open>try\<close>, so a failing store leaves the handler as an error.
\<close>

definition handleTrialWillEnd :: "stripe_subscription \<Rightarrow> world \<Rightarrow> outcome \<times> world" where
  "handleTrialWillEnd stripeSubscription w =
     (case Subscription_findOne_io w
             (\<lambda>s. sub_stripeSubscriptionId s = ss_id stripeSubscription) of
        Inl e \<Rightarrow> (Threw e, w)
      | Inr None \<Rightarrow> (Done, w)
      | Inr (Some subscription) \<Rightarrow> (Done, w))"

section \<open>Webhook controller: payment events\<close>

definition invoice_paymentType :: "invoice \<Rightarrow> subscription \<Rightarrow> string" where
  "invoice_paymentType invoice subscription =
     (if inv_billing_reason invoice = Some ''subscription_create''
      then (if sub_subscriptionType subscription = ''initial''
            then ''initial_payment'' else ''recurring_payment'')
      else if inv_billing_reason invoice = Some ''subscription_update''
      then ''upgrade_payment''
      else ''recurring_payment'')"

text \<open>The document that \<open>invoice.payment_succeeded\<close> creates, under the given key.\<close>

definition invoice_payment ::
  "invoice \<Rightarrow> subscription \<Rightarrow> user \<Rightarrow> string \<Rightarrow> string \<Rightarrow> payment" where
  "invoice_payment invoice subscription u key paymentType =
     \<lparr>pay_id = 0,
      pay_user = uid u,
      pay_subscription = sub_id subscription,
      pay_stripePaymentIntentId = key,
      pay_stripeInvoiceId = Some (inv_id invoice),
      pay_amount = num_or (inv_amount_paid invoice) (num_or (inv_amount_due invoice) 0),
      pay_currency = str_or (inv_currency invoice) ''eur'',
      pay_status = ''succeeded'',
      pay_paymentMethod = None,
      pay_cardDetails = None,
      pay_paymentType = paymentType,
      pay_description = ''Payment for '' @ sub_subscriptionType subscription @ '' subscription'',
      pay_receiptUrl = None,
      pay_failureReason = None,
      pay_refunded = False,
      pay_refundAmount = 0\<rparr>"

text \<open>
  The branch without a payment intent: the key is derived from the invoice id that
  the handler stored in the module's global object; every error is swallowed.
\<close>

definition invoice_fallback ::
  "invoice \<Rightarrow> subscription \<Rightarrow> string \<Rightarrow> world \<Rightarrow> outcome \<times> world" where
  "invoice_fallback invoice subscription paymentType w =
     (let fallbackId = ''invoice_'' @ (case obj_InvoiceId w of
                                           None \<Rightarrow> ''undefined'' | Some i \<Rightarrow> i) in
      case Payment_findOne w (\<lambda>p. pay_stripePaymentIntentId p = fallbackId) of
        Some existingPayment \<Rightarrow> (Done, w)
      | None \<Rightarrow>
          (case User_findById w (sub_user subscription) of
             None \<Rightarrow> (Done, w)
           | Some u \<Rightarrow>
               (case Payment_create (invoice_payment invoice subscription u fallbackId paymentType) w of
                  Inl e \<Rightarrow> (Done, w)
                | Inr w' \<Rightarrow> (Done, w'))))"

text \<open>
  The creation step of \<open>invoice.payment_succeeded\<close> with its \<open>catch\<close>: a duplicate key
  is logged and the handler goes on, any other error is thrown again. The upgrade
  check follows.
\<close>

definition invoice_upgrade_check :: "int \<Rightarrow> subscription \<Rightarrow> world \<Rightarrow> outcome \<times> world" where
  "invoice_upgrade_check now subscription w =
     (if shouldUpgradeToRecurring subscription now
      then (Done, upgradeToRecurringSubscription subscription w)
      else (Done, w))"

definition invoice_create_payment ::
  "int \<Rightarrow> invoice \<Rightarrow> subscription \<Rightarrow> string \<Rightarrow> string \<Rightarrow> world \<Rightarrow> outcome \<times> world" where
  "invoice_create_payment now invoice subscription paymentType paymentIntentId w =
     (case User_findById w (sub_user subscription) of
        None \<Rightarrow> (Threw TypeError, w)
      | Some u \<Rightarrow>
          (case Payment_create
                  (invoice_payment invoice subscription u paymentIntentId paymentType) w of
             Inl e \<Rightarrow>
               if e = DuplicateKey then invoice_upgrade_check now subscription w
               else (Threw e, w)
           | Inr w' \<Rightarrow> invoice_upgrade_check now subscription w'))"

definition handleInvoicePaymentSucceeded :: "int \<Rightarrow> invoice \<Rightarrow> world \<Rightarrow> outcome \<times> world" where
  "handleInvoicePaymentSucceeded now invoice w0 =
     (let w = w0\<lparr>obj_InvoiceId := Some (inv_id invoice)\<rparr> in
      case inv_subscription invoice of
        None \<Rightarrow> (Done, w)
      | Some sid \<Rightarrow>
          if sid = [] then (Done, w)
          else
            (case Subscription_findOne w (\<lambda>s. sub_stripeSubscriptionId s = sid) of
               None \<Rightarrow> (Done, w)
             | Some subscription \<Rightarrow>
                 (let paymentType = invoice_paymentType invoice subscription;
                      paymentIntentId = getInvoicePaymentIntentId w invoice in
                  if \<not> truthy_str paymentIntentId
                  then invoice_fallback invoice subscription paymentType w
                  else
                    (case Payment_findOne w
                            (\<lambda>p. pay_stripePaymentIntentId p = the_str paymentIntentId) of
                       Some existingPayment \<Rightarrow>
                         if \<not> truthy_str (pay_stripeInvoiceId existingPayment)
                         then (case Payment_save
                                      (existingPayment\<lparr>pay_stripeInvoiceId :=
                                                          Some (inv_id invoice)\<rparr>) w of
                                 Inl e \<Rightarrow> (Threw e, w)
                               | Inr w' \<Rightarrow> (Done, w'))
                         else (Done, w)
                     | None \<Rightarrow>
                         invoice_create_payment now invoice subscription paymentType
                           (the_str paymentIntentId) w))))"

text \<open>
  \<open>payment_intent.succeeded\<close>: the subscription of an intent that has no payment row
  is looked for through the intent's invoice at the provider, then through the
  metadata.
\<close>

definition intent_subscription :: "payment_intent \<Rightarrow> world \<Rightarrow> subscription option" where
  "intent_subscription paymentIntent w =
     (let by_invoice =
            (if truthy_str (pi_invoice paymentIntent)
             then (case map_of (remote_invoices w) (the_str (pi_invoice paymentIntent)) of
                     None \<Rightarrow> None
                   | Some invoice \<Rightarrow>
                       if truthy_str (inv_subscription invoice)
                       then Subscription_findOne w
                              (\<lambda>s. sub_stripeSubscriptionId s = the_str (inv_subscription invoice))
                       else None)
             else None) in
      case by_invoice of
        Some subscription \<Rightarrow> Some subscription
      | None \<Rightarrow>
          (case md_subscriptionId (pi_metadata paymentIntent) of
             None \<Rightarrow> None
           | Some i \<Rightarrow> Subscription_findOne w (\<lambda>s. sub_id s = i)))"

definition intent_paymentType :: "payment_intent \<Rightarrow> subscription \<Rightarrow> string" where
  "intent_paymentType paymentIntent subscription =
     (if truthy_str (md_paymentType (pi_metadata paymentIntent))
      then the_str (md_paymentType (pi_metadata paymentIntent))
      else if sub_subscriptionType subscription = ''initial'' then ''initial_payment''
      else ''recurring_payment'')"

definition intent_payment ::
  "payment_intent \<Rightarrow> subscription \<Rightarrow> user \<Rightarrow> cardDetails option \<Rightarrow> string option \<Rightarrow> payment" where
  "intent_payment paymentIntent subscription u cardDetails paymentMethodId =
     \<lparr>pay_id = 0,
      pay_user = uid u,
      pay_subscription = sub_id subscription,
      pay_stripePaymentIntentId = pi_id paymentIntent,
      pay_stripeInvoiceId = str_or_null (pi_invoice paymentIntent),
      pay_amount = pi_amount paymentIntent,
      pay_currency = pi_currency paymentIntent,
      pay_status = pi_status paymentIntent,
      pay_paymentMethod = paymentMethodId,
      pay_cardDetails = cardDetails,
      pay_paymentType = intent_paymentType paymentIntent subscription,
      pay_description = ''Payment for '' @ sub_subscriptionType subscription @ '' subscription'',
      pay_receiptUrl = str_or_null (pi_receipt_url paymentIntent),
      pay_failureReason = None,
      pay_refunded = False,
      pay_refundAmount = 0\<rparr>"

text \<open>
  The field-level update of an existing payment row: the row after the five
  conditional assignments, and whether one of them was made. The first condition is
  \<open>cardDetails && !payment.cardDetails\<close>, on the value read from the document.
\<close>

definition intent_backfilled ::
  "payment_intent \<Rightarrow> cardDetails option \<Rightarrow> string option \<Rightarrow> payment \<Rightarrow> payment \<times> bool" where
  "intent_backfilled paymentIntent cardDetails paymentMethodId payment =
     (let c1 = (cardDetails \<noteq> None \<and> \<not> truthy (read_cardDetails payment));
          p1 = (if c1 then payment\<lparr>pay_cardDetails := cardDetails\<rparr> else payment);
          c2 = (truthy_str paymentMethodId \<and> \<not> truthy_str (pay_paymentMethod p1));
          p2 = (if c2 then p1\<lparr>pay_paymentMethod := paymentMethodId\<rparr> else p1);
          c3 = (pi_status paymentIntent \<noteq> [] \<and> pay_status p2 \<noteq> pi_status paymentIntent);
          p3 = (if c3 then p2\<lparr>pay_status := pi_status paymentIntent\<rparr> else p2);
          c4 = (truthy_str (pi_receipt_url paymentIntent) \<and> \<not> truthy_str (pay_receiptUrl p3));
          p4 = (if c4 then p3\<lparr>pay_receiptUrl := pi_receipt_url paymentIntent\<rparr> else p3);
          c5 = (pi_amount paymentIntent \<noteq> 0 \<and> pay_amount p4 = 0);
          p5 = (if c5 then p4\<lparr>pay_amount := pi_amount paymentIntent\<rparr> else p4)
      in (p5, c1 \<or> c2 \<or> c3 \<or> c4 \<or> c5))"

text \<open>
  The row is saved only when it was updated; an error of the save is caught and
  logged.
\<close>

definition intent_backfill ::
  "payment_intent \<Rightarrow> cardDetails option \<Rightarrow> string option \<Rightarrow> payment \<Rightarrow> world \<Rightarrow> world" where
  "intent_backfill paymentIntent cardDetails paymentMethodId payment w =
     (let (p, updated) = intent_backfilled paymentIntent cardDetails paymentMethodId payment
      in if updated
         then (case Payment_save p w of Inl e \<Rightarrow> w | Inr w' \<Rightarrow> w')
         else w)"

text \<open>
  The creation step for an intent that has no payment row, with its \<open>catch\<close>: on a
  duplicate key the row is read again and updated, any other error is thrown again.
\<close>

definition intent_create_payment ::
  "payment_intent \<Rightarrow> cardDetails option \<Rightarrow> string option \<Rightarrow> world \<Rightarrow> outcome \<times> world" where
  "intent_create_payment paymentIntent cardDetails paymentMethodId w =
     (case intent_subscription paymentIntent w of
        None \<Rightarrow> (Done, w)
      | Some subscription \<Rightarrow>
          (case User_findById w (sub_user subscription) of
             None \<Rightarrow> (Threw TypeError, w)
           | Some u \<Rightarrow>
               (case Payment_create
                       (intent_payment paymentIntent subscription u cardDetails
                          paymentMethodId) w of
                  Inr w' \<Rightarrow> (Done, w')
                | Inl e \<Rightarrow>
                    if e = DuplicateKey
                    then (case Payment_findOne w
                                 (\<lambda>p. pay_stripePaymentIntentId p = pi_id paymentIntent) of
                            None \<Rightarrow> (Done, w)
                          | Some payment \<Rightarrow>
                              (Done, intent_backfill paymentIntent cardDetails
                                       paymentMethodId payment w))
                    else (Threw e, w))))"

definition handlePaymentIntentSucceeded :: "payment_intent \<Rightarrow> world \<Rightarrow> outcome \<times> world" where
  "handlePaymentIntentSucceeded paymentIntent w =
     (let (cardDetails, paymentMethodId) =
            extractCardDetailsFromPaymentIntent w (pi_id paymentIntent) in
      case Payment_findOne w (\<lambda>p. pay_stripePaymentIntentId p = pi_id paymentIntent) of
        Some payment \<Rightarrow>
          (Done, intent_backfill paymentIntent cardDetails paymentMethodId payment w)
      | None \<Rightarrow> intent_create_payment paymentIntent cardDetails paymentMethodId w)"

definition failed_payment ::
  "invoice \<Rightarrow> subscription \<Rightarrow> user \<Rightarrow> string \<Rightarrow> payment" where
  "failed_payment invoice subscription u key =
     \<lparr>pay_id = 0,
      pay_user = uid u,
      pay_subscription = sub_id subscription,
      pay_stripePaymentIntentId = key,
      pay_stripeInvoiceId = Some (inv_id invoice),
      pay_amount = num_or (inv_amount_due invoice) 0,
      pay_currency = str_or (inv_currency invoice) ''eur'',
      pay_status = ''canceled'',
      pay_paymentMethod = None,
      pay_cardDetails = None,
      pay_paymentType = ''recurring_payment'',
      pay_description =
        ''Failed payment for '' @ sub_subscriptionType subscription @ '' subscription'',
      pay_receiptUrl = None,
      pay_failureReason = Some (str_or (inv_failure_message invoice) ''Payment failed''),
      pay_refunded = False,
      pay_refundAmount = 0\<rparr>"

text \<open>The key under which \<open>invoice.payment_failed\<close> looks for and records the payment.\<close>

definition finalPaymentIntentId :: "world \<Rightarrow> invoice \<Rightarrow> string" where
  "finalPaymentIntentId w invoice =
     str_or (getInvoicePaymentIntentId w invoice)
       (str_or (inv_payment_intent invoice) (''failed_'' @ inv_id invoice))"

definition handleInvoicePaymentFailed :: "invoice \<Rightarrow> world \<Rightarrow> outcome \<times> world" where
  "handleInvoicePaymentFailed invoice w =
     (if \<not> truthy_str (inv_subscription invoice) then (Done, w)
      else
        (case Subscription_findOne w
                (\<lambda>s. sub_stripeSubscriptionId s = the_str (inv_subscription invoice)) of
           None \<Rightarrow> (Done, w)
         | Some subscription \<Rightarrow>
             (case Payment_findOne w
                     (\<lambda>p. pay_stripePaymentIntentId p = finalPaymentIntentId w invoice) of
                Some existingPayment \<Rightarrow>
                  if pay_status existingPayment \<noteq> ''canceled''
                  then (case Payment_save
                               (existingPayment\<lparr>
                                  pay_status := ''canceled'',
                                  pay_failureReason :=
                                    Some (str_or (inv_failure_message invoice)
                                            ''Payment failed'')\<rparr>) w of
                          Inl e \<Rightarrow> (Threw e, w)
                        | Inr w' \<Rightarrow> (Done, w'))
                  else (Done, w)
              | None \<Rightarrow>
                  (case User_findById w (sub_user subscription) of
                     None \<Rightarrow> (Done, w)
                   | Some u \<Rightarrow>
                       (case Payment_create
                               (failed_payment invoice subscription u
                                  (finalPaymentIntentId w invoice)) w of
                          Inl e \<Rightarrow> (Done, w)
                        | Inr w' \<Rightarrow> (Done, w'))))))"

section \<open>Webhook controller: the dispatcher\<close>

datatype event =
    CheckoutSessionCompleted session
  | CustomerSubscriptionCreated stripe_subscription
  | CustomerSubscriptionUpdated stripe_subscription
  | CustomerSubscriptionDeleted stripe_subscription
  | InvoicePaymentSucceeded invoice
  | InvoicePaymentFailed invoice
  | PaymentIntentSucceeded payment_intent
  | CustomerSubscriptionTrialWillEnd stripe_subscription
  | Unhandled string

fun dispatch :: "int \<Rightarrow> event \<Rightarrow> world \<Rightarrow> outcome \<times> world" where
  "dispatch now (CheckoutSessionCompleted s) w = handleCheckoutSessionCompleted s w"
| "dispatch now (CustomerSubscriptionCreated s) w = handleSubscriptionCreated now s w"
| "dispatch now (CustomerSubscriptionUpdated s) w = handleSubscriptionUpdated now s w"
| "dispatch now (CustomerSubscriptionDeleted s) w = handleSubscriptionDeleted now s w"
| "dispatch now (InvoicePaymentSucceeded i) w = handleInvoicePaymentSucceeded now i w"
| "dispatch now (InvoicePaymentFailed i) w = handleInvoicePaymentFailed i w"
| "dispatch now (PaymentIntentSucceeded p) w = handlePaymentIntentSucceeded p w"
| "dispatch now (CustomerSubscriptionTrialWillEnd s) w = handleTrialWillEnd s w"
| "dispatch now (Unhandled t) w = (Done, w)"



section \<open>Example data\<close>

text \<open>
  A new user on the initial plan, three days of trial, with the provider's objects of
  one paid invoice. The concrete instances below are evaluated on it.
\<close>

definition ex_user :: user where
  "ex_user = \<lparr>uid = 1, email = ''a@example.com'', hasEverSubscribed = False\<rparr>"

definition ex_plan_initial :: plan where
  "ex_plan_initial =
     \<lparr>plan_name = ''Initial Subscription'', plan_stripePriceId = Some ''price_initial'',
      plan_amount = 200, plan_currency = ''eur'', plan_interval = None,
      plan_intervalCount = Some 1, plan_planType = ''initial'', plan_isActive = True\<rparr>"

definition ex_plan_recurring :: plan where
  "ex_plan_recurring =
     \<lparr>plan_name = ''Weekly Subscription'', plan_stripePriceId = Some ''price_recurring'',
      plan_amount = 1000, plan_currency = ''eur'', plan_interval = Some ''week'',
      plan_intervalCount = Some 1, plan_planType = ''recurring'', plan_isActive = True\<rparr>"

definition ex_sub :: subscription where
  "ex_sub =
     \<lparr>sub_id = 1, sub_user = 1, sub_stripeSubscriptionId = ''sub_1'',
      sub_stripeCustomerId = ''cus_1'', sub_stripePriceId = ''price_initial'',
      sub_status = ''trialing'', sub_currentPeriodStart = 0,
      sub_currentPeriodEnd = 604800000, sub_trialStart = Some 0,
      sub_trialEnd = Some 259200000, sub_canceledAt = None,
      sub_cancelAtPeriodEnd = False, sub_isFirstSubscription = True,
      sub_subscriptionType = ''initial'', sub_amount = 200, sub_currency = ''eur'',
      sub_interval = None, sub_intervalCount = 1\<rparr>"

definition ex_metadata :: metadata where
  "ex_metadata =
     \<lparr>md_userId = Some 1, md_planType = Some ''initial'',
      md_isFirstSubscription = Some ''true'', md_isReturningUser = None,
      md_subscriptionId = None, md_paymentType = None\<rparr>"

definition ex_remote_sub :: stripe_subscription where
  "ex_remote_sub =
     \<lparr>ss_id = ''sub_1'', ss_customer = ''cus_1'', ss_status = ''trialing'',
      ss_metadata = ex_metadata,
      ss_items = [\<lparr>item_id = ''si_1'', item_price = ''price_initial''\<rparr>],
      ss_current_period_start = Some 1, ss_current_period_end = Some 604800,
      ss_trial_start = Some 1, ss_trial_end = Some 259200,
      ss_cancel_at_period_end = False, ss_canceled_at = None\<rparr>"

definition ex_invoice :: invoice where
  "ex_invoice =
     \<lparr>inv_id = ''in_1'', inv_subscription = Some ''sub_1'',
      inv_billing_reason = Some ''subscription_create'',
      inv_payment_intent = Some ''pi_1'', inv_charge = None,
      inv_amount_paid = Some 200, inv_amount_due = Some 200,
      inv_currency = Some ''eur'', inv_failure_message = None\<rparr>"

definition ex_intent :: payment_intent where
  "ex_intent =
     \<lparr>pi_id = ''pi_1'', pi_amount = 200, pi_currency = ''eur'',
      pi_status = ''succeeded'', pi_invoice = Some ''in_1'',
      pi_metadata = ex_metadata\<lparr>md_userId := None, md_planType := None,
                                 md_isFirstSubscription := None\<rparr>,
      pi_receipt_url = Some ''https://pay.example/r1''\<rparr>"

definition ex_card :: stripe_card where
  "ex_card =
     \<lparr>card_brand = Some ''visa'', card_last4 = Some ''4242'', card_exp_month = Some 12,
      card_exp_year = Some 2030, card_funding = Some ''credit'',
      card_country = Some ''DE''\<rparr>"

definition ex_world :: world where
  "ex_world =
     \<lparr>users = [ex_user], subscriptions = [ex_sub], payments = [],
      plans = [ex_plan_initial, ex_plan_recurring],
      remote_subscriptions = [(''sub_1'', ex_remote_sub)],
      remote_paymentIntents =
        [(''pi_1'', Some (PMObject \<lparr>pm_id = ''pm_1'', pm_type = ''card'',
                                    pm_card = Some ex_card\<rparr>))],
      remote_invoices = [(''in_1'', ex_invoice)],
      remote_charges = [],
      remote_update_fails = False, db_down = False, obj_InvoiceId = None\<rparr>"

text \<open>
  A returning user (the flag is set, no subscription row) and the
  \<open>customer.subscription.created\<close> event of a recurring-plan checkout whose payload
  carries trial timestamps.
\<close>

definition ex_returning_user :: user where
  "ex_returning_user = \<lparr>uid = 2, email = ''b@example.com'', hasEverSubscribed = True\<rparr>"

definition ex_returning_event :: stripe_subscription where
  "ex_returning_event =
     \<lparr>ss_id = ''sub_2'', ss_customer = ''cus_2'', ss_status = ''trialing'',
      ss_metadata = \<lparr>md_userId = Some 2, md_planType = Some ''recurring'',
                      md_isFirstSubscription = Some ''false'',
                      md_isReturningUser = Some ''true'',
                      md_subscriptionId = None, md_paymentType = None\<rparr>,
      ss_items = [\<lparr>item_id = ''si_2'', item_price = ''price_recurring''\<rparr>],
      ss_current_period_start = Some 1000, ss_current_period_end = Some 605800,
      ss_trial_start = Some 1000, ss_trial_end = Some 260200,
      ss_cancel_at_period_end = False, ss_canceled_at = None\<rparr>"

definition ex_returning_world :: world where
  "ex_returning_world = ex_world\<lparr>users := [ex_user, ex_returning_user]\<rparr>"



section \<open>Sequences of events and what they preserve\<close>

text \<open>
  A sequence of events, each with the time at which it is handled, goes through the
  dispatcher one after the other; the state that a handler leaves is kept whether
  it completed or threw.
\<close>

fun run_events :: "(int \<times> event) list \<Rightarrow> world \<Rightarrow> world" where
  "run_events [] w = w"
| "run_events ((now, ev) # evs) w = run_events evs (snd (dispatch now ev w))"

definition type_of :: "subscription list \<Rightarrow> nat \<Rightarrow> string option" where
  "type_of xs i = map_option sub_subscriptionType (find (\<lambda>s. sub_id s = i) xs)"

definition type_le :: "string \<Rightarrow> string \<Rightarrow> bool" where
  "type_le t t' \<longleftrightarrow> t' = t \<or> (t = ''initial'' \<and> t' = ''recurring'')"

text \<open>
  \<open>evolves xs ys\<close>: the document ids stay distinct, and every row of \<open>xs\<close> is still
  in \<open>ys\<close> under its id, its type unchanged or moved from initial to recurring.
\<close>

definition evolves :: "subscription list \<Rightarrow> subscription list \<Rightarrow> bool" where
  "evolves xs ys \<longleftrightarrow>
     distinct (map sub_id ys) \<and>
     (\<forall>r \<in> set xs. \<exists>t'. type_of ys (sub_id r) = Some t' \<and>
                          type_le (sub_subscriptionType r) t')"

text \<open>
  \<open>pay_keeps R xs ys\<close>: the document ids stay distinct, and every payment of \<open>xs\<close>
  is still in \<open>ys\<close> under its id, related to what it was by \<open>R\<close>.
\<close>

definition pay_keeps ::
  "(payment \<Rightarrow> payment \<Rightarrow> bool) \<Rightarrow> payment list \<Rightarrow> payment list \<Rightarrow> bool" where
  "pay_keeps R xs ys \<longleftrightarrow>
     distinct (map pay_id ys) \<and>
     (\<forall>r \<in> set xs. \<exists>r'. find (\<lambda>x. pay_id x = pay_id r) ys = Some r' \<and> R r r')"

definition keeps_card :: "payment \<Rightarrow> payment \<Rightarrow> bool" where
  "keeps_card r r' \<longleftrightarrow>
     (pay_cardDetails r \<noteq> None \<longrightarrow> pay_cardDetails r' = pay_cardDetails r)"

definition keeps_succeeded :: "payment \<Rightarrow> payment \<Rightarrow> bool" where
  "keeps_succeeded r r' \<longleftrightarrow>
     (pay_status r = ''succeeded'' \<longrightarrow> pay_status r' = ''succeeded'') \<and> keeps_card r r'"

text \<open>
  The identity key under which \<open>invoice.payment_succeeded\<close> records an invoice: the
  payment intent when one resolves, the id derived from the invoice otherwise.
\<close>

definition invoice_key :: "world \<Rightarrow> invoice \<Rightarrow> string" where
  "invoice_key w invoice =
     (if truthy_str (getInvoicePaymentIntentId w invoice)
      then the_str (getInvoicePaymentIntentId w invoice)
      else ''invoice_'' @ inv_id invoice)"

text \<open>
  An invoice is recordable when its subscription and the subscription's owner are
  stored and no payment is stored under its key yet.
\<close>

definition recordable :: "world \<Rightarrow> invoice \<Rightarrow> bool" where
  "recordable w invoice \<longleftrightarrow>
     inv_id invoice \<noteq> [] \<and>
     truthy_str (inv_subscription invoice) \<and>
     (case Subscription_findOne w
             (\<lambda>s. sub_stripeSubscriptionId s = the_str (inv_subscription invoice)) of
        None \<Rightarrow> False
      | Some s \<Rightarrow> User_findById w (sub_user s) \<noteq> None) \<and>
     Payment_findOne w (\<lambda>p. pay_stripePaymentIntentId p = invoice_key w invoice) = None"

text \<open>
  An invoice event and a payment-intent event describe the same transaction when
  each names the other, the provider's copy of the invoice names the same
  subscription, the intent has succeeded, its metadata carries no payment type or a
  valid one, and the provider gives card details for it.
\<close>

definition same_transaction :: "world \<Rightarrow> invoice \<Rightarrow> payment_intent \<Rightarrow> bool" where
  "same_transaction w invoice paymentIntent \<longleftrightarrow>
     recordable w invoice \<and>
     pi_id paymentIntent \<noteq> [] \<and>
     inv_payment_intent invoice = Some (pi_id paymentIntent) \<and>
     pi_invoice paymentIntent = Some (inv_id invoice) \<and>
     (case map_of (remote_invoices w) (inv_id invoice) of
        None \<Rightarrow> False
      | Some ri \<Rightarrow> inv_subscription ri = inv_subscription invoice) \<and>
     pi_status paymentIntent = ''succeeded'' \<and>
     (truthy_str (md_paymentType (pi_metadata paymentIntent)) \<longrightarrow>
        the_str (md_paymentType (pi_metadata paymentIntent)) \<in> set payment_types) \<and>
     fst (extractCardDetailsFromPaymentIntent w (pi_id paymentIntent)) \<noteq> None"

text \<open>The row that the first delivery of a recordable invoice stores.\<close>

definition first_row :: "world \<Rightarrow> invoice \<Rightarrow> subscription \<Rightarrow> user \<Rightarrow> payment" where
  "first_row w i s u =
     (invoice_payment i s u (invoice_key w i) (invoice_paymentType i s))
       \<lparr>pay_id := fresh_id (map pay_id (payments w))\<rparr>"

text \<open>
  The example world after the payment of the example has been recorded, the intent's
  event first, so that the row has the card.
\<close>

definition ex_payment :: payment where
  "ex_payment =
     \<lparr>pay_id = 1, pay_user = 1, pay_subscription = 1,
      pay_stripePaymentIntentId = ''pi_1'', pay_stripeInvoiceId = Some ''in_1'',
      pay_amount = 200, pay_currency = ''eur'', pay_status = ''succeeded'',
      pay_paymentMethod = Some ''pm_1'', pay_cardDetails = Some (card_of ex_card),
      pay_paymentType = ''initial_payment'',
      pay_description = ''Payment for initial subscription'',
      pay_receiptUrl = Some ''https://pay.example/r1'', pay_failureReason = None,
      pay_refunded = False, pay_refundAmount = 0\<rparr>"

definition ex_paid_world :: world where
  "ex_paid_world = ex_world\<lparr>payments := [ex_payment]\<rparr>"

section \<open>Auxiliary facts\<close>

lemmas ex_defs = ex_user_def ex_plan_initial_def ex_plan_recurring_def ex_sub_def ex_metadata_def
  ex_remote_sub_def ex_invoice_def ex_intent_def ex_card_def ex_world_def
  ex_returning_user_def ex_returning_event_def ex_returning_world_def
  ex_payment_def ex_paid_world_def

lemmas enum_defs = subscription_statuses_def subscription_types_def intervals_def
  payment_statuses_def payment_types_def active_statuses_def

text \<open>The value read from the nested path counts as true, whatever was stored.\<close>

lemma read_cardDetails_truthy [simp]: "truthy (read_cardDetails payment)"
  by (simp add: read_cardDetails_def split: option.split)

lemma find_SomeD: "find P xs = Some x \<Longrightarrow> P x \<and> x \<in> set xs"
  by (induction xs) (auto split: if_splits)

section \<open>Plan policy\<close>

text \<open>
  Claim C6. A user without any subscription row and without the flag gets the
  initial plan; a user without an active or trialing subscription who has some
  subscription row, or the flag, gets the recurring plan; a user with an active or
  trialing subscription gets \<open>existing\<close> whatever the flag is; and when the lookup
  fails the answer is the initial plan with the reason \<open>error_fallback\<close>.
\<close>

theorem plan_policy:
  "(\<not> db_down w \<and> (\<forall>s \<in> set (subscriptions w). sub_user s \<noteq> uid u) \<and> \<not> hasEverSubscribed u
      \<longrightarrow> get_prop (getRecommendedPlan u w) ''planType'' = JStr ''initial'') \<and>
   (\<not> db_down w \<and> (\<forall>s \<in> set (subscriptions w). sub_user s = uid u \<longrightarrow> \<not> is_active s) \<and>
      ((\<exists>s \<in> set (subscriptions w). sub_user s = uid u) \<or> hasEverSubscribed u)
      \<longrightarrow> get_prop (getRecommendedPlan u w) ''planType'' = JStr ''recurring'') \<and>
   (\<not> db_down w \<and> (\<exists>s \<in> set (subscriptions w). sub_user s = uid u \<and> is_active s)
      \<longrightarrow> get_prop (getRecommendedPlan u w) ''planType'' = JStr ''existing'') \<and>
   (db_down w \<longrightarrow> get_prop (getRecommendedPlan u w) ''planType'' = JStr ''initial'' \<and>
      get_prop (getRecommendedPlan u w) ''reason'' = JStr ''error_fallback'')"
  by (auto simp: getRecommendedPlan_def Subscription_findOne_io_def get_prop_def find_None_iff
      split: option.splits dest!: find_SomeD)

text \<open>
  The four cases at concrete users: a new user, the same user after a cancelled
  subscription, a user with only the flag, a flagged user with a trialing
  subscription, and a failing store.
\<close>

theorem plan_policy_witness:
  "get_prop (getRecommendedPlan ex_user (ex_world\<lparr>subscriptions := []\<rparr>)) ''planType''
     = JStr ''initial'' \<and>
   get_prop (getRecommendedPlan ex_user
      (ex_world\<lparr>subscriptions := [ex_sub\<lparr>sub_status := ''canceled''\<rparr>]\<rparr>)) ''planType''
     = JStr ''recurring'' \<and>
   get_prop (getRecommendedPlan ex_returning_user ex_returning_world) ''planType''
     = JStr ''recurring'' \<and>
   get_prop (getRecommendedPlan (ex_user\<lparr>hasEverSubscribed := True\<rparr>) ex_world) ''planType''
     = JStr ''existing'' \<and>
   get_prop (getRecommendedPlan ex_user (ex_world\<lparr>db_down := True\<rparr>)) ''planType''
     = JStr ''initial''"
  using plan_policy[of "ex_world\<lparr>subscriptions := []\<rparr>" ex_user]
    plan_policy[of "ex_world\<lparr>subscriptions := [ex_sub\<lparr>sub_status := ''canceled''\<rparr>]\<rparr>" ex_user]
    plan_policy[of ex_returning_world ex_returning_user]
    plan_policy[of ex_world "ex_user\<lparr>hasEverSubscribed := True\<rparr>"]
    plan_policy[of "ex_world\<lparr>db_down := True\<rparr>" ex_user]
  by (simp add: ex_defs is_active_def active_statuses_def)

section \<open>Trial service\<close>

lemma upgrade_trial_ok:
  assumes "\<not> db_down w" "getRecurringPlan w = Some rp" "plan_stripePriceId rp = Some price"
    "Subscription_valid (upgraded_trial rp price s)"
  shows "upgradeToRecurringSubscription_trial s w =
     ([(''success'', JBool True), (''subscriptionId'', JNum (int (sub_id s))),
       (''newAmount'', JNum (plan_amount rp)), (''newInterval'', str_js (plan_interval rp))],
      w\<lparr>subscriptions := map (\<lambda>r. if sub_id r = sub_id s then upgraded_trial rp price s else r)
          (subscriptions w)\<rparr>)"
  using assms
  by (simp add: upgradeToRecurringSubscription_trial_def getRecurringPlan_io_def Let_def
      Subscription_save_def upgraded_trial_def)

lemma checkTrialStatus_in_trial:
  assumes "\<not> db_down w"
    "find (\<lambda>r. sub_user r = uid u \<and> sub_subscriptionType r = ''initial'' \<and> is_active r)
       (subscriptions w) = Some s"
    "sub_trialEnd s = Some T" "now < T"
  shows "checkTrialStatus u now w =
     ([(''isInTrial'', JBool True), (''shouldCharge'', JBool False),
       (''action'', JStr ''trial_active'')], w)"
  using assms by (simp add: checkTrialStatus_def Subscription_findOne_io_def Let_def)

lemma checkTrialStatus_upgrade:
  assumes "\<not> db_down w"
    "find (\<lambda>r. sub_user r = uid u \<and> sub_subscriptionType r = ''initial'' \<and> is_active r)
       (subscriptions w) = Some s"
    "sub_trialEnd s = Some T" "T \<le> now"
    "find (\<lambda>r. sub_user r = uid u \<and> sub_subscriptionType r = ''recurring'' \<and> is_active r)
       (subscriptions w) = None"
  shows "checkTrialStatus u now w =
     ([(''isInTrial'', JBool False), (''shouldCharge'', JBool True),
       (''action'', JStr ''upgraded_to_recurring''),
       (''upgradeResult'', JObj (fst (upgradeToRecurringSubscription_trial s w)))],
      snd (upgradeToRecurringSubscription_trial s w))"
  using assms by (simp add: checkTrialStatus_def Subscription_findOne_io_def Let_def case_prod_beta)

lemma checkTrialStatus_none:
  assumes "\<not> db_down w"
    "find (\<lambda>r. sub_user r = uid u \<and> sub_subscriptionType r = ''initial'' \<and> is_active r)
       (subscriptions w) = None"
  shows "checkTrialStatus u now w =
     ([(''isInTrial'', JBool False), (''shouldCharge'', JBool False),
       (''action'', JStr ''none'')], w)"
  using assms by (simp add: checkTrialStatus_def Subscription_findOne_io_def Let_def)

lemma checkTrialStatus_no_trialEnd:
  "map_of (fst (checkTrialStatus u now w)) ''trialEnd'' = None"
  by (simp add: checkTrialStatus_def Let_def case_prod_beta split: sum.split option.split)

text \<open>
  Claim C3, as the code has it. For a user whose initial-type subscription is
  trialing with \<open>trialEnd = T\<close>: before \<open>T\<close> the answer is \<open>shouldCharge = false\<close>
  with the reason \<open>in_trial\<close>, and nothing changes. From \<open>T\<close> on, when the user has
  no active recurring subscription, this is the user's only active initial
  subscription and the recurring plan exists, the call upgrades the row and answers
  \<open>shouldCharge = true\<close>; a call after that upgrade answers \<open>shouldCharge = false\<close>
  with the reason \<open>none\<close> and changes nothing, so there is no second upgrade.
\<close>

theorem trial_boundary:
  assumes db: "\<not> db_down w"
    and s: "find (\<lambda>r. sub_user r = uid u \<and> sub_subscriptionType r = ''initial'' \<and> is_active r)
              (subscriptions w) = Some s"
    and st: "sub_status s = ''trialing''"
    and T: "sub_trialEnd s = Some T"
  shows "(now < T \<longrightarrow>
            shouldChargeUser u now w =
              ([(''shouldCharge'', JBool False), (''reason'', JStr ''in_trial''),
                (''trialEnd'', JUndefined)], w)) \<and>
         (T \<le> now \<and>
          find (\<lambda>r. sub_user r = uid u \<and> sub_subscriptionType r = ''recurring'' \<and> is_active r)
            (subscriptions w) = None \<and>
          (\<forall>r \<in> set (subscriptions w).
              sub_user r = uid u \<and> sub_subscriptionType r = ''initial'' \<and> is_active r \<longrightarrow>
              sub_id r = sub_id s) \<and>
          getRecurringPlan w = Some rp \<and> plan_stripePriceId rp = Some price \<and>
          Subscription_valid (upgraded_trial rp price s) \<longrightarrow>
            get_prop (fst (shouldChargeUser u now w)) ''shouldCharge'' = JBool True \<and>
            get_prop (fst (shouldChargeUser u now w)) ''reason'' = JStr ''trial_ended'' \<and>
            subscriptions (snd (shouldChargeUser u now w)) =
              map (\<lambda>r. if sub_id r = sub_id s then upgraded_trial rp price s else r)
                (subscriptions w) \<and>
            shouldChargeUser u now' (snd (shouldChargeUser u now w)) =
              ([(''shouldCharge'', JBool False), (''reason'', JStr ''none'')],
               snd (shouldChargeUser u now w)))"
proof (intro conjI impI)
  assume "now < T"
  then show "shouldChargeUser u now w =
              ([(''shouldCharge'', JBool False), (''reason'', JStr ''in_trial''),
                (''trialEnd'', JUndefined)], w)"
    using checkTrialStatus_in_trial[OF db s T]
    by (simp add: shouldChargeUser_def get_prop_def)
next
  assume h: "T \<le> now \<and>
          find (\<lambda>r. sub_user r = uid u \<and> sub_subscriptionType r = ''recurring'' \<and> is_active r)
            (subscriptions w) = None \<and>
          (\<forall>r \<in> set (subscriptions w).
              sub_user r = uid u \<and> sub_subscriptionType r = ''initial'' \<and> is_active r \<longrightarrow>
              sub_id r = sub_id s) \<and>
          getRecurringPlan w = Some rp \<and> plan_stripePriceId rp = Some price \<and>
          Subscription_valid (upgraded_trial rp price s)"
  let ?s' = "upgraded_trial rp price s"
  let ?w1 = "w\<lparr>subscriptions := map (\<lambda>r. if sub_id r = sub_id s then ?s' else r)
          (subscriptions w)\<rparr>"
  from h have up: "upgradeToRecurringSubscription_trial s w =
     ([(''success'', JBool True), (''subscriptionId'', JNum (int (sub_id s))),
       (''newAmount'', JNum (plan_amount rp)), (''newInterval'', str_js (plan_interval rp))], ?w1)"
    using upgrade_trial_ok[OF db, of rp price s] by simp
  from h have cts: "checkTrialStatus u now w =
     ([(''isInTrial'', JBool False), (''shouldCharge'', JBool True),
       (''action'', JStr ''upgraded_to_recurring''),
       (''upgradeResult'', JObj (fst (upgradeToRecurringSubscription_trial s w)))], ?w1)"
    using checkTrialStatus_upgrade[OF db s T, of now] up by simp
  have first: "shouldChargeUser u now w =
      ([(''shouldCharge'', JBool True), (''reason'', JStr ''trial_ended''),
             (''subscription'', JObj (fst (upgradeToRecurringSubscription_trial s w)))], ?w1)"
    by (simp add: shouldChargeUser_def cts get_prop_def)
  have db1: "\<not> db_down ?w1" using db by simp
  have none1: "find (\<lambda>r. sub_user r = uid u \<and> sub_subscriptionType r = ''initial'' \<and> is_active r)
       (subscriptions ?w1) = None"
    using h by (auto simp: find_None_iff upgraded_trial_def)
  have second: "shouldChargeUser u now' ?w1 =
      ([(''shouldCharge'', JBool False), (''reason'', JStr ''none'')], ?w1)"
    using checkTrialStatus_none[OF db1 none1, of now']
    by (simp add: shouldChargeUser_def get_prop_def)
  show "get_prop (fst (shouldChargeUser u now w)) ''shouldCharge'' = JBool True"
    by (simp add: first get_prop_def)
  show "get_prop (fst (shouldChargeUser u now w)) ''reason'' = JStr ''trial_ended''"
    by (simp add: first get_prop_def)
  show "subscriptions (snd (shouldChargeUser u now w)) =
              map (\<lambda>r. if sub_id r = sub_id s then upgraded_trial rp price s else r)
                (subscriptions w)"
    by (simp add: first)
  show "shouldChargeUser u now' (snd (shouldChargeUser u now w)) =
              ([(''shouldCharge'', JBool False), (''reason'', JStr ''none'')],
               snd (shouldChargeUser u now w))"
    using second by (simp add: first)
qed

text \<open>
  The example user: in trial one second after the start, upgraded after the three
  days, and asked again later.
\<close>

theorem trial_boundary_witness:
  "shouldChargeUser ex_user 1000 ex_world =
     ([(''shouldCharge'', JBool False), (''reason'', JStr ''in_trial''),
       (''trialEnd'', JUndefined)], ex_world) \<and>
   get_prop (fst (shouldChargeUser ex_user 300000000 ex_world)) ''shouldCharge'' = JBool True \<and>
   shouldChargeUser ex_user 400000000 (snd (shouldChargeUser ex_user 300000000 ex_world)) =
     ([(''shouldCharge'', JBool False), (''reason'', JStr ''none'')],
      snd (shouldChargeUser ex_user 300000000 ex_world))"
proof -
  have db: "\<not> db_down ex_world" by (simp add: ex_world_def)
  have s: "find (\<lambda>r. sub_user r = uid ex_user \<and> sub_subscriptionType r = ''initial'' \<and> is_active r)
              (subscriptions ex_world) = Some ex_sub"
    by (simp add: ex_defs is_active_def active_statuses_def)
  have st: "sub_status ex_sub = ''trialing''" by (simp add: ex_sub_def)
  have T: "sub_trialEnd ex_sub = Some 259200000" by (simp add: ex_sub_def)
  have rest: "(259200000::int) \<le> 300000000 \<and>
          find (\<lambda>r. sub_user r = uid ex_user \<and> sub_subscriptionType r = ''recurring'' \<and> is_active r)
            (subscriptions ex_world) = None \<and>
          (\<forall>r \<in> set (subscriptions ex_world).
              sub_user r = uid ex_user \<and> sub_subscriptionType r = ''initial'' \<and> is_active r \<longrightarrow>
              sub_id r = sub_id ex_sub) \<and>
          getRecurringPlan ex_world = Some ex_plan_recurring \<and>
          plan_stripePriceId ex_plan_recurring = Some ''price_recurring'' \<and>
          Subscription_valid (upgraded_trial ex_plan_recurring ''price_recurring'' ex_sub)"
    by (simp add: ex_defs getRecurringPlan_def Subscription_valid_def subscription_statuses_def
        subscription_types_def intervals_def upgraded_trial_def)
  show ?thesis
    using trial_boundary[OF db s st T, where now = 1000]
      trial_boundary[OF db s st T, where now = 300000000 and now' = 400000000
        and rp = ex_plan_recurring and price = "''price_recurring''"]
      rest
    by simp
qed

text \<open>
  The claim as written asks for the reason \<open>already_recurring\<close> on the call after the
  upgrade. On the example user the first call after the trial upgrades the row, and
  the next call answers \<open>none\<close>: the upgraded row is no longer of the initial type, so
  the first lookup finds nothing.
\<close>

theorem trial_boundary_counterexample:
  "get_prop (fst (shouldChargeUser ex_user 300000000 ex_world)) ''shouldCharge'' = JBool True \<and>
   map (\<lambda>r. (sub_subscriptionType r, sub_trialEnd r))
     (subscriptions (snd (shouldChargeUser ex_user 300000000 ex_world))) = [(''recurring'', None)] \<and>
   get_prop (fst (shouldChargeUser ex_user 400000000
                    (snd (shouldChargeUser ex_user 300000000 ex_world)))) ''reason''
     = JStr ''none'' \<and>
   get_prop (fst (shouldChargeUser ex_user 400000000
                    (snd (shouldChargeUser ex_user 300000000 ex_world)))) ''reason''
     \<noteq> JStr ''already_recurring''"
  by (simp add: shouldChargeUser_def checkTrialStatus_def upgradeToRecurringSubscription_trial_def
      Subscription_findOne_io_def getRecurringPlan_io_def getRecurringPlan_def Subscription_save_def
      Subscription_valid_def subscription_statuses_def subscription_types_def intervals_def
      is_active_def active_statuses_def get_prop_def str_js_def Let_def upgraded_trial_def ex_defs)

text \<open>
  Claim C10. The object that \<open>checkTrialStatus\<close> returns never has a \<open>trialEnd\<close>
  property, so whenever \<open>shouldChargeUser\<close> answers \<open>in_trial\<close> the \<open>trialEnd\<close> of its
  result is \<open>undefined\<close>.
\<close>

theorem in_trial_no_trialEnd:
  "get_prop (fst (checkTrialStatus u now w)) ''trialEnd'' = JUndefined \<and>
   (get_prop (fst (shouldChargeUser u now w)) ''reason'' = JStr ''in_trial'' \<longrightarrow>
    get_prop (fst (shouldChargeUser u now w)) ''trialEnd'' = JUndefined)"
  by (simp add: shouldChargeUser_def get_prop_def case_prod_beta checkTrialStatus_no_trialEnd)

text \<open>
  The example user during the trial: the subscription row has a trial end, the
  result has none.
\<close>

theorem in_trial_no_trialEnd_witness:
  "get_prop (fst (shouldChargeUser ex_user 1000 ex_world)) ''reason'' = JStr ''in_trial'' \<and>
   get_prop (fst (shouldChargeUser ex_user 1000 ex_world)) ''trialEnd'' = JUndefined \<and>
   map sub_trialEnd (subscriptions ex_world) = [Some 259200000]"
proof -
  have "get_prop (fst (shouldChargeUser ex_user 1000 ex_world)) ''reason'' = JStr ''in_trial''"
    by (simp add: shouldChargeUser_def checkTrialStatus_def Subscription_findOne_io_def
        is_active_def active_statuses_def get_prop_def Let_def ex_defs)
  then show ?thesis
    using in_trial_no_trialEnd[of ex_user 1000 ex_world] by (simp add: ex_defs)
qed

section \<open>The dispatcher's response\<close>







section \<open>Subscription events\<close>

text \<open>
  Claim C8 at a returning user's event. The first variant of the handler stores the
  provider's trial dates: the new row (of user 2) has both trial fields set.
\<close>

theorem created_returning_keeps_trial:
  "fst (handleSubscriptionCreated 5000 ex_returning_event ex_returning_world) = Done \<and>
   map (\<lambda>s. (sub_user s, sub_trialStart s, sub_trialEnd s))
     (subscriptions (snd (handleSubscriptionCreated 5000 ex_returning_event ex_returning_world)))
   = [(1, Some 0, Some 259200000), (2, Some 1000000, Some 260200000)]"
  by (simp add: handleSubscriptionCreated_def User_findById_def
      ensureStripeSubscription_def toDateFromUnix_def new_subscription_def Subscription_create_def
      Subscription_valid_def enum_defs the_str_def str_or_def num_or_def Let_def ex_defs)

text \<open>
  The second variant does what the claim says: a row created for an event marked
  \<open>isReturningUser\<close> has no trial dates.
\<close>

lemma created_alt_returning_no_trial:
  assumes "md_isReturningUser (ss_metadata e) = Some ''true''"
  shows "subscriptions (snd (handleSubscriptionCreated_alt now e w)) = subscriptions w \<or>
     (\<exists>s. subscriptions (snd (handleSubscriptionCreated_alt now e w)) = subscriptions w @ [s] \<and>
          sub_trialStart s = None \<and> sub_trialEnd s = None)"
  using assms
  by (auto simp: handleSubscriptionCreated_alt_def Let_def Subscription_create_def User_save_def
      new_subscription_def split: option.split list.split sum.split)

text \<open>
  Claim C9 at the example subscription. The first variant of the handler cancels
  the row and stamps the date, and leaves the owner's flag as it was.
\<close>

theorem deleted_keeps_flag:
  "fst (handleSubscriptionDeleted 5000 ex_remote_sub ex_world) = Done \<and>
   map (\<lambda>s. (sub_status s, sub_canceledAt s))
     (subscriptions (snd (handleSubscriptionDeleted 5000 ex_remote_sub ex_world)))
     = [(''canceled'', Some 5000)] \<and>
   map hasEverSubscribed (users (snd (handleSubscriptionDeleted 5000 ex_remote_sub ex_world)))
     = [False]"
  by (simp add: handleSubscriptionDeleted_def Subscription_findOne_def Subscription_save_def
      Subscription_valid_def enum_defs ex_defs)

lemma find_uid_map:
  assumes "find (\<lambda>u. uid u = i) us = Some u0"
  shows "find (\<lambda>u. uid u = i)
           (map (\<lambda>r. if uid r = uid u0 then u0\<lparr>hasEverSubscribed := True\<rparr> else r) us)
     = Some (u0\<lparr>hasEverSubscribed := True\<rparr>)"
  using assms by (induction us) (auto split: if_splits)

text \<open>
  The second variant does what the claim says: the row is cancelled and stamped, and
  the owner has the flag afterwards.
\<close>

lemma deleted_alt_sets_flag:
  assumes s: "Subscription_findOne w (\<lambda>s. sub_stripeSubscriptionId s = ss_id e) = Some s"
    and v: "Subscription_valid (s\<lparr>sub_status := ''canceled'', sub_canceledAt := Some now\<rparr>)"
    and u: "User_findById w (sub_user s) = Some u"
  shows "fst (handleSubscriptionDeleted_alt now e w) = Done \<and>
     map_option hasEverSubscribed
       (User_findById (snd (handleSubscriptionDeleted_alt now e w)) (sub_user s)) = Some True \<and>
     subscriptions (snd (handleSubscriptionDeleted_alt now e w)) =
       map (\<lambda>r. if sub_id r = sub_id s
                 then s\<lparr>sub_status := ''canceled'', sub_canceledAt := Some now\<rparr> else r)
         (subscriptions w)"
proof (cases "hasEverSubscribed u")
  case True
  then show ?thesis using s v u
    by (simp add: handleSubscriptionDeleted_alt_def Subscription_save_def User_findById_def)
next
  case False
  from u have "find (\<lambda>u. uid u = sub_user s) (users w) = Some u"
    by (simp add: User_findById_def)
  from find_uid_map[OF this] False show ?thesis using s v u
    by (simp add: handleSubscriptionDeleted_alt_def Subscription_save_def User_findById_def
        User_save_def)
qed

section \<open>Monotonic subscription type\<close>

lemma find_sub_id_map:
  assumes "\<And>r. sub_id (f r) = sub_id r"
  shows "find (\<lambda>s. sub_id s = i) (map f xs) = map_option f (find (\<lambda>s. sub_id s = i) xs)"
  by (induction xs) (auto simp: assms)

lemma find_distinct_id:
  "distinct (map sub_id xs) \<Longrightarrow> r \<in> set xs \<Longrightarrow> find (\<lambda>s. sub_id s = sub_id r) xs = Some r"
  by (induction xs) (auto simp: rev_image_eqI)

lemma type_le_refl: "type_le t t" by (simp add: type_le_def)

lemma type_le_trans: "type_le a b \<Longrightarrow> type_le b c \<Longrightarrow> type_le a c"
  by (auto simp: type_le_def)

lemma evolves_refl: "distinct (map sub_id xs) \<Longrightarrow> evolves xs xs"
  by (auto simp: evolves_def type_of_def find_distinct_id type_le_refl)

lemma type_of_SomeD: "type_of ys i = Some t \<Longrightarrow> \<exists>r \<in> set ys. sub_id r = i \<and> sub_subscriptionType r = t"
  by (auto simp: type_of_def dest!: find_SomeD)

lemma evolves_trans: 
  assumes "evolves xs ys" "evolves ys zs" shows "evolves xs zs"
  unfolding evolves_def
proof (intro conjI ballI)
  show "distinct (map sub_id zs)" using assms by (simp add: evolves_def)
next
  fix r assume "r \<in> set xs"
  with assms(1) obtain t' where t': "type_of ys (sub_id r) = Some t'" "type_le (sub_subscriptionType r) t'"
    by (auto simp: evolves_def)
  from type_of_SomeD[OF t'(1)] obtain r' where r': "r' \<in> set ys" "sub_id r' = sub_id r" "sub_subscriptionType r' = t'"
    by auto
  with assms(2) obtain t'' where "type_of zs (sub_id r') = Some t''" "type_le t' t''"
    by (auto simp: evolves_def)
  with r' t' show "\<exists>t'. type_of zs (sub_id r) = Some t' \<and> type_le (sub_subscriptionType r) t'"
    by (auto intro: type_le_trans)
qed

lemma evolves_save:
  assumes d: "distinct (map sub_id xs)" and s0: "s0 \<in> set xs" and id: "sub_id s = sub_id s0"
    and le: "type_le (sub_subscriptionType s0) (sub_subscriptionType s)"
  shows "evolves xs (map (\<lambda>r. if sub_id r = sub_id s then s else r) xs)"
  unfolding evolves_def
proof (intro conjI ballI)
  have m: "map sub_id (map (\<lambda>r. if sub_id r = sub_id s then s else r) xs) = map sub_id xs"
    by (induction xs) auto
  show "distinct (map sub_id (map (\<lambda>r. if sub_id r = sub_id s then s else r) xs))"
    using d by (simp only: m)
next
  fix r assume r: "r \<in> set xs"
  have f: "find (\<lambda>x. sub_id x = sub_id r) (map (\<lambda>r. if sub_id r = sub_id s then s else r) xs)
     = map_option (\<lambda>r. if sub_id r = sub_id s then s else r) (find (\<lambda>x. sub_id x = sub_id r) xs)"
    by (rule find_sub_id_map) simp
  have t: "type_of (map (\<lambda>r. if sub_id r = sub_id s then s else r) xs) (sub_id r)
     = Some (sub_subscriptionType (if sub_id r = sub_id s then s else r))"
    unfolding type_of_def f find_distinct_id[OF d r] by simp
  show "\<exists>t'. type_of (map (\<lambda>r. if sub_id r = sub_id s then s else r) xs) (sub_id r) = Some t' \<and>
            type_le (sub_subscriptionType r) t'"
  proof (cases "sub_id r = sub_id s")
    case True
    with d r s0 id have "r = s0" by (metis distinct_map inj_onD)
    with True le show ?thesis unfolding t by simp
  next
    case False
    then show ?thesis unfolding t by (simp add: type_le_refl)
  qed
qed

lemma foldr_max_ge: "x \<in> set ids \<Longrightarrow> x \<le> foldr max ids (0::nat)"
  by (induction ids) (auto simp: max_def)

lemma fresh_id_notin: "fresh_id ids \<notin> set ids"
  using foldr_max_ge[of "fresh_id ids" ids] by (auto simp: fresh_id_def)

lemma find_append_notin:
  "r \<in> set xs \<Longrightarrow> find (\<lambda>s. sub_id s = sub_id r) (xs @ [n]) = find (\<lambda>s. sub_id s = sub_id r) xs"
  by (induction xs) auto

lemma evolves_create:
  assumes d: "distinct (map sub_id xs)"
  shows "evolves xs (xs @ [n\<lparr>sub_id := fresh_id (map sub_id xs)\<rparr>])"
  unfolding evolves_def
proof (intro conjI ballI)
  show "distinct (map sub_id (xs @ [n\<lparr>sub_id := fresh_id (map sub_id xs)\<rparr>]))"
    using d fresh_id_notin[of "map sub_id xs"] by simp
next
  fix r assume r: "r \<in> set xs"
  show "\<exists>t'. type_of (xs @ [n\<lparr>sub_id := fresh_id (map sub_id xs)\<rparr>]) (sub_id r) = Some t' \<and>
            type_le (sub_subscriptionType r) t'"
    by (simp add: type_of_def find_append_notin[OF r] find_distinct_id[OF d r] type_le_refl)
qed


lemma save_evolves:
  assumes "distinct (map sub_id (subscriptions w))" "s0 \<in> set (subscriptions w)"
    "sub_id s = sub_id s0" "type_le (sub_subscriptionType s0) (sub_subscriptionType s)"
    "Subscription_save s w0 = Inr w'" "subscriptions w0 = subscriptions w"
  shows "evolves (subscriptions w) (subscriptions w')"
  using assms evolves_save[of "subscriptions w" s0 s]
  by (auto simp: Subscription_save_def split: if_splits)

lemma create_evolves:
  assumes "distinct (map sub_id (subscriptions w))" "Subscription_create n w = Inr w'"
  shows "evolves (subscriptions w) (subscriptions w')"
  using assms evolves_create[of "subscriptions w" n]
  by (auto simp: Subscription_create_def split: if_splits)

lemma findOne_in: "Subscription_findOne w P = Some s \<Longrightarrow> s \<in> set (subscriptions w)"
  by (auto simp: Subscription_findOne_def dest: find_SomeD)

lemma checkout_subs: "subscriptions (snd (handleCheckoutSessionCompleted s w)) = subscriptions w"
  by (simp add: handleCheckoutSessionCompleted_def User_findById_io_def User_save_io_def
      User_save_def split: option.split)

lemma trial_will_end_world: "snd (handleTrialWillEnd s w) = w"
  by (simp add: handleTrialWillEnd_def Subscription_findOne_io_def split: option.split)

lemma created_evolves:
  assumes "distinct (map sub_id (subscriptions w))"
  shows "evolves (subscriptions w) (subscriptions (snd (handleSubscriptionCreated now e w)))"
  using assms
  by (auto simp: handleSubscriptionCreated_def Let_def evolves_refl create_evolves
      split: option.split list.split sum.split)

lemma updated_subscription_id:
  "sub_id (updated_subscription w e p rp s) = sub_id s"
  by (simp add: updated_subscription_def upgraded_def Let_def split: option.split)

lemma updated_subscription_type:
  "type_le (sub_subscriptionType s) (sub_subscriptionType (updated_subscription w e p rp s))"
  by (simp add: updated_subscription_def upgraded_def Let_def type_le_def split: option.split)

lemma updated_evolves:
  assumes d: "distinct (map sub_id (subscriptions w))"
  shows "evolves (subscriptions w) (subscriptions (snd (handleSubscriptionUpdated now e w)))"
proof (cases "Subscription_findOne w (\<lambda>s. sub_stripeSubscriptionId s = ss_id e)")
  case None
  then show ?thesis using d by (simp add: handleSubscriptionUpdated_def evolves_refl)
next
  case (Some s0)
  note in0 = findOne_in[OF Some]
  show ?thesis
  proof (cases "ss_items e")
    case Nil
    then show ?thesis using Some d by (simp add: handleSubscriptionUpdated_def evolves_refl)
  next
    case (Cons item rest)
    show ?thesis
    proof (cases "Subscription_save
             (updated_subscription w e (item_price item) (getRecurringPlan w) s0) w")
      case (Inl err)
      then show ?thesis using Some Cons d
        by (simp add: handleSubscriptionUpdated_def Let_def evolves_refl)
    next
      case (Inr w')
      from save_evolves[OF d in0 updated_subscription_id updated_subscription_type Inr refl]
      show ?thesis using Some Cons Inr d
        by (simp add: handleSubscriptionUpdated_def Let_def evolves_refl)
    qed
  qed
qed

lemma deleted_evolves:
  assumes d: "distinct (map sub_id (subscriptions w))"
  shows "evolves (subscriptions w) (subscriptions (snd (handleSubscriptionDeleted now e w)))"
proof (cases "Subscription_findOne w (\<lambda>s. sub_stripeSubscriptionId s = ss_id e)")
  case None
  then show ?thesis using d by (simp add: handleSubscriptionDeleted_def evolves_refl)
next
  case (Some s0)
  note in0 = findOne_in[OF Some]
  show ?thesis
  proof (cases "Subscription_save (s0\<lparr>sub_status := ''canceled'', sub_canceledAt := Some now\<rparr>) w")
    case (Inl err)
    then show ?thesis using Some d by (simp add: handleSubscriptionDeleted_def evolves_refl)
  next
    case (Inr w')
    from save_evolves[OF d in0 _ _ Inr refl]
    show ?thesis using Some Inr by (simp add: handleSubscriptionDeleted_def type_le_def)
  qed
qed

lemma stripe_update_subs:
  "stripe_subscriptions_update w i it p = Inr w1 \<Longrightarrow> subscriptions w1 = subscriptions w"
  by (auto simp: stripe_subscriptions_update_def Let_def split: if_splits option.splits)

lemma upgrade_cases:
  "upgradeToRecurringSubscription s w = w \<or>
   (\<exists>rp it w1. getRecurringPlan w = Some rp \<and>
      stripe_subscriptions_update w (sub_stripeSubscriptionId s) it (plan_stripePriceId rp) = Inr w1 \<and>
      (upgradeToRecurringSubscription s w = w1 \<or>
       (\<exists>price w2. plan_stripePriceId rp = Some price \<and>
          Subscription_save (upgraded rp price s) w1 = Inr w2 \<and>
          upgradeToRecurringSubscription s w = w2)))"
  by (auto simp: upgradeToRecurringSubscription_def split: option.split list.split sum.split)

lemma upgrade_evolves:
  assumes d: "distinct (map sub_id (subscriptions w))" and in0: "s0 \<in> set (subscriptions w)"
    and ty: "sub_subscriptionType s0 = ''initial''"
  shows "evolves (subscriptions w) (subscriptions (upgradeToRecurringSubscription s0 w))"
  using upgrade_cases[of s0 w]
proof (elim disjE exE conjE)
  assume "upgradeToRecurringSubscription s0 w = w"
  then show ?thesis using d by (simp add: evolves_refl)
next
  fix rp it w1
  assume "stripe_subscriptions_update w (sub_stripeSubscriptionId s0) it (plan_stripePriceId rp) = Inr w1"
    "upgradeToRecurringSubscription s0 w = w1"
  then show ?thesis using d stripe_update_subs by (simp add: evolves_refl)
next
  fix rp it w1 price w2
  assume u: "stripe_subscriptions_update w (sub_stripeSubscriptionId s0) it (plan_stripePriceId rp) = Inr w1"
    and sv: "Subscription_save (upgraded rp price s0) w1 = Inr w2"
    and r: "upgradeToRecurringSubscription s0 w = w2"
  have "evolves (subscriptions w) (subscriptions w2)"
    by (rule save_evolves[OF d in0 _ _ sv stripe_update_subs[OF u]])
       (simp_all add: upgraded_def type_le_def ty)
  then show ?thesis by (simp add: r)
qed

lemma Payment_create_subs: "Payment_create p w = Inr w' \<Longrightarrow> subscriptions w' = subscriptions w"
  by (auto simp: Payment_create_def split: if_splits)

lemma Payment_save_subs: "Payment_save p w = Inr w' \<Longrightarrow> subscriptions w' = subscriptions w"
  by (auto simp: Payment_save_def split: if_splits)

lemma invoice_upgrade_check_evolves:
  assumes d: "distinct (map sub_id (subscriptions w))" and in0: "s0 \<in> set (subscriptions w)"
  shows "evolves (subscriptions w) (subscriptions (snd (invoice_upgrade_check now s0 w)))"
  using upgrade_evolves[OF d in0] d
  by (simp add: invoice_upgrade_check_def shouldUpgradeToRecurring_def evolves_refl)

lemma invoice_create_payment_evolves:
  assumes d: "distinct (map sub_id (subscriptions w))" and in0: "s0 \<in> set (subscriptions w)"
  shows "evolves (subscriptions w) (subscriptions (snd (invoice_create_payment now i s0 pt k w)))"
proof (cases "User_findById w (sub_user s0)")
  case None
  then show ?thesis using d by (simp add: invoice_create_payment_def evolves_refl)
next
  case (Some u)
  show ?thesis
  proof (cases "Payment_create (invoice_payment i s0 u k pt) w")
    case (Inl e)
    then show ?thesis using Some d invoice_upgrade_check_evolves[OF d in0]
      by (simp add: invoice_create_payment_def evolves_refl)
  next
    case (Inr w')
    note eq = Payment_create_subs[OF Inr]
    from invoice_upgrade_check_evolves[of w' s0 now] d in0 eq
    show ?thesis using Some Inr by (simp add: invoice_create_payment_def)
  qed
qed

lemma invoice_fallback_subs:
  "subscriptions (snd (invoice_fallback i s pt w)) = subscriptions w"
  by (auto simp: invoice_fallback_def Let_def split: option.split sum.split
      dest: Payment_create_subs)

lemma save_case_subs:
  "subscriptions (case Payment_save p w of Inl e \<Rightarrow> w | Inr w' \<Rightarrow> w') = subscriptions w"
  by (simp add: Payment_save_def)

lemma intent_backfill_subs:
  "subscriptions (intent_backfill p c m pay w) = subscriptions w"
  by (simp add: intent_backfill_def case_prod_beta save_case_subs)

lemma intent_create_payment_subs:
  "subscriptions (snd (intent_create_payment p c m w)) = subscriptions w"
  unfolding intent_create_payment_def
  by (auto simp: intent_backfill_subs split: option.split sum.split dest: Payment_create_subs)

lemma intent_succeeded_subs:
  "subscriptions (snd (handlePaymentIntentSucceeded p w)) = subscriptions w"
  by (simp add: handlePaymentIntentSucceeded_def case_prod_beta
      intent_backfill_subs intent_create_payment_subs split: option.split)

lemma invoice_failed_subs:
  "subscriptions (snd (handleInvoicePaymentFailed i w)) = subscriptions w"
  unfolding handleInvoicePaymentFailed_def Let_def
  by (auto split: option.split sum.split dest: Payment_create_subs Payment_save_subs)

lemma invoice_create_payment_evolves_x:
  assumes "distinct (map sub_id xs)" "subscriptions w = xs" "s0 \<in> set xs"
  shows "evolves xs (subscriptions (snd (invoice_create_payment now i s0 pt k w)))"
  using invoice_create_payment_evolves[of w s0 now i pt k] assms by simp

lemma invoice_succeeded_evolves:
  assumes d: "distinct (map sub_id (subscriptions w))"
  shows "evolves (subscriptions w) (subscriptions (snd (handleInvoicePaymentSucceeded now i w)))"
  using d
  by (auto simp: handleInvoicePaymentSucceeded_def Let_def evolves_refl invoice_fallback_subs
      split: option.split sum.split
      dest!: findOne_in Payment_save_subs intro!: invoice_create_payment_evolves_x)

lemma dispatch_evolves:
  assumes d: "distinct (map sub_id (subscriptions w))"
  shows "evolves (subscriptions w) (subscriptions (snd (dispatch now ev w)))"
  using d
  by (cases ev)
     (simp_all add: checkout_subs created_evolves updated_evolves deleted_evolves
        invoice_succeeded_evolves intent_succeeded_subs invoice_failed_subs
        trial_will_end_world evolves_refl)

lemma run_events_evolves:
  "distinct (map sub_id (subscriptions w)) \<Longrightarrow>
   evolves (subscriptions w) (subscriptions (run_events evs w))"
proof (induction evs arbitrary: w)
  case Nil
  then show ?case by (simp add: evolves_refl)
next
  case (Cons a evs)
  obtain now ev where a: "a = (now, ev)" by (cases a)
  from dispatch_evolves[OF Cons.prems, of now ev]
  have e1: "evolves (subscriptions w) (subscriptions (snd (dispatch now ev w)))" .
  then have "distinct (map sub_id (subscriptions (snd (dispatch now ev w))))"
    by (simp add: evolves_def)
  from Cons.IH[OF this] e1 show ?case
    by (auto simp: a intro: evolves_trans)
qed

text \<open>
  Claim C7. Document ids being distinct, no sequence of events that goes through the
  dispatcher (sequences of \<open>customer.subscription.updated\<close> among them) moves the
  type of a stored subscription from recurring back to initial: a row that is
  recurring stays recurring, and the type of a row after the sequence is its type
  before or has moved from initial to recurring.
\<close>

theorem type_monotonic:
  assumes d: "distinct (map sub_id (subscriptions w))"
  shows "(type_of (subscriptions w) i = Some ''recurring'' \<longrightarrow>
            type_of (subscriptions (run_events evs w)) i = Some ''recurring'') \<and>
         (\<forall>t t'. type_of (subscriptions w) i = Some t \<and>
                  type_of (subscriptions (run_events evs w)) i = Some t' \<longrightarrow>
                  t' = t \<or> (t = ''initial'' \<and> t' = ''recurring''))"
proof -
  have step: "\<exists>t'. type_of (subscriptions (run_events evs w)) i = Some t' \<and> type_le t t'"
    if "type_of (subscriptions w) i = Some t" for t
  proof -
    from type_of_SomeD[OF that] obtain r where "r \<in> set (subscriptions w)" "sub_id r = i"
      "sub_subscriptionType r = t" by auto
    with run_events_evolves[OF d, of evs] show ?thesis by (auto simp: evolves_def)
  qed
  show ?thesis
  proof (intro conjI allI impI)
    assume "type_of (subscriptions w) i = Some ''recurring''"
    from step[OF this] show "type_of (subscriptions (run_events evs w)) i = Some ''recurring''"
      by (auto simp: type_le_def)
  next
    fix t t'
    assume "type_of (subscriptions w) i = Some t \<and>
            type_of (subscriptions (run_events evs w)) i = Some t'"
    with step[of t] show "t' = t \<or> (t = ''initial'' \<and> t' = ''recurring'')"
      by (auto simp: type_le_def)
  qed
qed

text \<open>
  An upgraded row receives an update event that still carries the initial price and
  stays recurring; the example row receives an active update at the recurring price
  and becomes recurring.
\<close>

theorem type_monotonic_witness:
  "distinct (map sub_id (subscriptions
      (ex_world\<lparr>subscriptions := [ex_sub\<lparr>sub_subscriptionType := ''recurring''\<rparr>]\<rparr>))) \<and>
   type_of (subscriptions
      (ex_world\<lparr>subscriptions := [ex_sub\<lparr>sub_subscriptionType := ''recurring''\<rparr>]\<rparr>)) 1
     = Some ''recurring'' \<and>
   type_of (subscriptions (run_events [(1000, CustomerSubscriptionUpdated ex_remote_sub)]
      (ex_world\<lparr>subscriptions := [ex_sub\<lparr>sub_subscriptionType := ''recurring''\<rparr>]\<rparr>))) 1
     = Some ''recurring''"
  using type_monotonic[of "ex_world\<lparr>subscriptions := [ex_sub\<lparr>sub_subscriptionType := ''recurring''\<rparr>]\<rparr>"
      1 "[(1000, CustomerSubscriptionUpdated ex_remote_sub)]"]
  by (simp add: ex_defs type_of_def)

lemma updated_upgrades_example:
  "type_of (subscriptions (run_events
      [(1000, CustomerSubscriptionUpdated
                (ex_remote_sub\<lparr>ss_status := ''active'',
                   ss_items := [\<lparr>item_id = ''si_1'', item_price = ''price_recurring''\<rparr>]\<rparr>))]
      ex_world)) 1 = Some ''recurring''"
  by (simp add: handleSubscriptionUpdated_def Subscription_findOne_def getRecurringPlan_def
      updated_subscription_def upgraded_def ensureStripeSubscription_def toDateFromUnix_def
      Subscription_save_def Subscription_valid_def enum_defs str_or_def type_of_def Let_def ex_defs)

section \<open>The upgrade\<close>

text \<open>
  Claim C5 on the example subscription. The trial service's upgrade reports success
  and makes the local row recurring at the recurring price while the provider's
  subscription keeps the initial price: no provider call is made. The webhook
  controller's upgrade swaps the provider's price first and then commits the local
  row, and leaves the row's trial dates as they were.
\<close>

theorem upgrade_divergence:
  "get_prop (fst (upgradeToRecurringSubscription_trial ex_sub ex_world)) ''success'' = JBool True \<and>
   map (\<lambda>s. (sub_subscriptionType s, sub_stripePriceId s, sub_amount s))
     (subscriptions (snd (upgradeToRecurringSubscription_trial ex_sub ex_world)))
     = [(''recurring'', ''price_recurring'', 1000)] \<and>
   map (\<lambda>(k, r). (k, map item_price (ss_items r)))
     (remote_subscriptions (snd (upgradeToRecurringSubscription_trial ex_sub ex_world)))
     = [(''sub_1'', [''price_initial''])] \<and>
   map (\<lambda>s. (sub_subscriptionType s, sub_trialStart s, sub_trialEnd s))
     (subscriptions (upgradeToRecurringSubscription ex_sub ex_world))
     = [(''recurring'', Some 0, Some 259200000)] \<and>
   map (\<lambda>(k, r). (k, map item_price (ss_items r)))
     (remote_subscriptions (upgradeToRecurringSubscription ex_sub ex_world))
     = [(''sub_1'', [''price_recurring''])]"
  by (simp add: upgradeToRecurringSubscription_trial_def upgradeToRecurringSubscription_def
      getRecurringPlan_io_def getRecurringPlan_def upgraded_trial_def upgraded_def
      stripe_subscriptions_retrieve_def stripe_subscriptions_update_def
      Subscription_save_def Subscription_valid_def enum_defs get_prop_def str_js_def Let_def ex_defs)

text \<open>
  In general: the trial service's upgrade never touches the provider; the webhook
  controller's upgrade leaves everything as it was when the provider's call fails,
  and changes the local rows only after the provider's update has succeeded.
\<close>

lemma upgrade_trial_no_provider_call:
  "remote_subscriptions (snd (upgradeToRecurringSubscription_trial s w)) = remote_subscriptions w"
  by (auto simp: upgradeToRecurringSubscription_trial_def Let_def Subscription_save_def
      split: sum.split option.split)

lemma upgrade_remote_failure:
  assumes "remote_update_fails w \<or> map_of (remote_subscriptions w) (sub_stripeSubscriptionId s) = None"
  shows "upgradeToRecurringSubscription s w = w"
  using assms
  by (auto simp: upgradeToRecurringSubscription_def stripe_subscriptions_retrieve_def
      stripe_subscriptions_update_def split: option.split list.split sum.split)

lemma upgrade_commit_after_swap:
  assumes "subscriptions (upgradeToRecurringSubscription s w) \<noteq> subscriptions w"
  shows "\<exists>rp it w1. getRecurringPlan w = Some rp \<and>
           stripe_subscriptions_update w (sub_stripeSubscriptionId s) it (plan_stripePriceId rp)
             = Inr w1"
  using upgrade_cases[of s w] assms stripe_update_subs by fastforce

section \<open>Payments under later events\<close>

lemma find_pay_id_map:
  assumes "\<And>r. pay_id (f r) = pay_id r"
  shows "find (\<lambda>s. pay_id s = i) (map f xs) = map_option f (find (\<lambda>s. pay_id s = i) xs)"
  by (induction xs) (auto simp: assms)

lemma find_distinct_pay_id:
  "distinct (map pay_id xs) \<Longrightarrow> r \<in> set xs \<Longrightarrow> find (\<lambda>s. pay_id s = pay_id r) xs = Some r"
  by (induction xs) (auto simp: rev_image_eqI)

lemma pay_keeps_refl:
  "distinct (map pay_id xs) \<Longrightarrow> reflp R \<Longrightarrow> pay_keeps R xs xs"
  by (auto simp: pay_keeps_def find_distinct_pay_id dest: reflpD)

lemma pay_keeps_save:
  assumes d: "distinct (map pay_id xs)" and p0: "p0 \<in> set xs" and id: "pay_id p = pay_id p0"
    and R: "R p0 p" and refl: "reflp R"
  shows "pay_keeps R xs (map (\<lambda>r. if pay_id r = pay_id p then p else r) xs)"
  unfolding pay_keeps_def
proof (intro conjI ballI)
  have m: "map pay_id (map (\<lambda>r. if pay_id r = pay_id p then p else r) xs) = map pay_id xs"
    by (induction xs) auto
  show "distinct (map pay_id (map (\<lambda>r. if pay_id r = pay_id p then p else r) xs))"
    using d by (simp only: m)
next
  fix r assume r: "r \<in> set xs"
  have f: "find (\<lambda>x. pay_id x = pay_id r) (map (\<lambda>r. if pay_id r = pay_id p then p else r) xs)
     = Some (if pay_id r = pay_id p then p else r)"
    by (subst find_pay_id_map) (simp_all add: find_distinct_pay_id[OF d r])
  show "\<exists>r'. find (\<lambda>x. pay_id x = pay_id r)
               (map (\<lambda>r. if pay_id r = pay_id p then p else r) xs) = Some r' \<and> R r r'"
  proof (cases "pay_id r = pay_id p")
    case True
    with d r p0 id have "r = p0" by (metis distinct_map inj_onD)
    with True R show ?thesis unfolding f by simp
  next
    case False
    then show ?thesis unfolding f by (simp add: reflpD[OF refl])
  qed
qed

lemma find_append_pay:
  "r \<in> set xs \<Longrightarrow> find (\<lambda>s. pay_id s = pay_id r) (xs @ [n]) = find (\<lambda>s. pay_id s = pay_id r) xs"
  by (induction xs) auto

lemma pay_keeps_create:
  assumes d: "distinct (map pay_id xs)" and refl: "reflp R"
  shows "pay_keeps R xs (xs @ [n\<lparr>pay_id := fresh_id (map pay_id xs)\<rparr>])"
  unfolding pay_keeps_def
proof (intro conjI ballI)
  show "distinct (map pay_id (xs @ [n\<lparr>pay_id := fresh_id (map pay_id xs)\<rparr>]))"
    using d fresh_id_notin[of "map pay_id xs"] by simp
next
  fix r assume r: "r \<in> set xs"
  show "\<exists>r'. find (\<lambda>x. pay_id x = pay_id r) (xs @ [n\<lparr>pay_id := fresh_id (map pay_id xs)\<rparr>])
           = Some r' \<and> R r r'"
    by (simp add: find_append_pay[OF r] find_distinct_pay_id[OF d r] reflpD[OF refl])
qed

lemma keeps_card_refl: "reflp keeps_card"
  by (simp add: reflp_def keeps_card_def)

lemma keeps_succeeded_refl: "reflp keeps_succeeded"
  by (simp add: reflp_def keeps_succeeded_def keeps_card_def)

lemma Payment_findOne_in: "Payment_findOne w P = Some p \<Longrightarrow> p \<in> set (payments w)"
  by (auto simp: Payment_findOne_def dest: find_SomeD)

lemma Payment_create_keeps:
  assumes "Payment_create p w = Inr w'" "payments w = xs" "distinct (map pay_id xs)" "reflp R"
  shows "pay_keeps R xs (payments w')"
proof -
  from assms(1,2) have "payments w' = xs @ [p\<lparr>pay_id := fresh_id (map pay_id xs)\<rparr>]"
    by (auto simp: Payment_create_def split: if_splits)
  then show ?thesis using pay_keeps_create[OF assms(3,4), where n = p] by simp
qed

lemma Payment_save_keeps:
  assumes "Payment_save p w = Inr w'" "payments w = xs" "distinct (map pay_id xs)"
    "p0 \<in> set xs" "pay_id p = pay_id p0" "R p0 p" "reflp R"
  shows "pay_keeps R xs (payments w')"
proof -
  from assms(1,2) have "payments w' = map (\<lambda>r. if pay_id r = pay_id p then p else r) xs"
    by (auto simp: Payment_save_def split: if_splits)
  then show ?thesis
    using pay_keeps_save[OF assms(3,4,5,6,7)] by simp
qed

lemma snd_case_sum:
  "snd (case x of Inl e \<Rightarrow> (f e, w) | Inr w' \<Rightarrow> (g w', w')) = (case x of Inl e \<Rightarrow> w | Inr w' \<Rightarrow> w')"
  by (cases x) auto

lemma Subscription_save_payments:
  "payments (case Subscription_save s w of Inl e \<Rightarrow> w | Inr w' \<Rightarrow> w') = payments w"
  by (simp add: Subscription_save_def)

lemma Subscription_create_payments:
  "payments (case Subscription_create s w of Inl e \<Rightarrow> w | Inr w' \<Rightarrow> w') = payments w"
  by (simp add: Subscription_create_def)

lemma checkout_payments: "payments (snd (handleCheckoutSessionCompleted s w)) = payments w"
  by (simp add: handleCheckoutSessionCompleted_def User_findById_io_def User_save_io_def
      User_save_def split: option.split)

lemma created_payments: "payments (snd (handleSubscriptionCreated now e w)) = payments w"
  by (simp add: handleSubscriptionCreated_def Let_def snd_case_sum Subscription_create_payments
      split: option.split list.split)

lemma updated_payments: "payments (snd (handleSubscriptionUpdated now e w)) = payments w"
  by (simp add: handleSubscriptionUpdated_def Let_def snd_case_sum Subscription_save_payments
      split: option.split list.split)

lemma deleted_payments: "payments (snd (handleSubscriptionDeleted now e w)) = payments w"
  by (simp add: handleSubscriptionDeleted_def snd_case_sum Subscription_save_payments
      split: option.split)

lemma stripe_update_payments:
  "stripe_subscriptions_update w i it p = Inr w1 \<Longrightarrow> payments w1 = payments w"
  by (auto simp: stripe_subscriptions_update_def Let_def split: if_splits option.splits)

lemma Subscription_save_payments':
  "Subscription_save s w = Inr w' \<Longrightarrow> payments w' = payments w"
  by (auto simp: Subscription_save_def split: if_splits)

lemma upgrade_payments: "payments (upgradeToRecurringSubscription s w) = payments w"
  using upgrade_cases[of s w]
proof (elim disjE exE conjE)
  assume "upgradeToRecurringSubscription s w = w"
  then show ?thesis by simp
next
  fix rp it w1
  assume "stripe_subscriptions_update w (sub_stripeSubscriptionId s) it (plan_stripePriceId rp) = Inr w1"
    "upgradeToRecurringSubscription s w = w1"
  then show ?thesis using stripe_update_payments by simp
next
  fix rp it w1 price w2
  assume "stripe_subscriptions_update w (sub_stripeSubscriptionId s) it (plan_stripePriceId rp) = Inr w1"
    "Subscription_save (upgraded rp price s) w1 = Inr w2"
    "upgradeToRecurringSubscription s w = w2"
  then show ?thesis using stripe_update_payments Subscription_save_payments' by simp
qed

lemma invoice_upgrade_check_payments:
  "payments (snd (invoice_upgrade_check now s w)) = payments w"
  by (simp add: invoice_upgrade_check_def upgrade_payments)

lemma invoice_create_payment_keeps:
  assumes d: "distinct (map pay_id xs)" and eq: "payments w = xs" and refl: "reflp R"
  shows "pay_keeps R xs (payments (snd (invoice_create_payment now i s pt k w)))"
proof (cases "User_findById w (sub_user s)")
  case None
  then show ?thesis using d eq refl by (simp add: invoice_create_payment_def pay_keeps_refl)
next
  case (Some u)
  show ?thesis
  proof (cases "Payment_create (invoice_payment i s u k pt) w")
    case (Inl e)
    then show ?thesis using Some d eq refl
      by (simp add: invoice_create_payment_def invoice_upgrade_check_payments pay_keeps_refl)
  next
    case (Inr w')
    from Payment_create_keeps[OF Inr eq d refl]
    show ?thesis using Some Inr
      by (simp add: invoice_create_payment_def invoice_upgrade_check_payments)
  qed
qed

lemma invoice_fallback_keeps:
  assumes d: "distinct (map pay_id xs)" and eq: "payments w = xs" and refl: "reflp R"
  shows "pay_keeps R xs (payments (snd (invoice_fallback i s pt w)))"
  using d eq refl
  by (auto simp: invoice_fallback_def Let_def pay_keeps_refl
      split: option.split sum.split intro: Payment_create_keeps)

lemma invoice_succeeded_keeps:
  assumes d: "distinct (map pay_id (payments w))" and refl: "reflp R"
    and inv: "\<And>p x. R p (p\<lparr>pay_stripeInvoiceId := x\<rparr>)"
  shows "pay_keeps R (payments w) (payments (snd (handleInvoicePaymentSucceeded now i w)))"
proof -
  let ?w = "w\<lparr>obj_InvoiceId := Some (inv_id i)\<rparr>"
  have eq: "payments ?w = payments w" by simp
  note same = pay_keeps_refl[OF d refl]
  show ?thesis
  proof (cases "inv_subscription i")
    case None
    then show ?thesis using same by (simp add: handleInvoicePaymentSucceeded_def)
  next
    case (Some sid)
    show ?thesis
    proof (cases "sid = [] \<or> Subscription_findOne ?w (\<lambda>s. sub_stripeSubscriptionId s = sid) = None")
      case True
      then show ?thesis using Some same by (auto simp: handleInvoicePaymentSucceeded_def Let_def)
    next
      case False
      then obtain s where s: "sid \<noteq> []"
        "Subscription_findOne ?w (\<lambda>s. sub_stripeSubscriptionId s = sid) = Some s" by auto
      show ?thesis
      proof (cases "truthy_str (getInvoicePaymentIntentId ?w i)")
        case False
        then show ?thesis using Some s invoice_fallback_keeps[OF d eq refl]
          by (simp add: handleInvoicePaymentSucceeded_def Let_def)
      next
        case True
        show ?thesis
        proof (cases "Payment_findOne ?w
                 (\<lambda>p. pay_stripePaymentIntentId p = the_str (getInvoicePaymentIntentId ?w i))")
          case None
          then show ?thesis using Some s True invoice_create_payment_keeps[OF d eq refl]
            by (simp add: handleInvoicePaymentSucceeded_def Let_def)
        next
          case (Some p0)
          from Payment_findOne_in[OF Some] have in0: "p0 \<in> set (payments w)" by simp
          show ?thesis
          proof (cases "Payment_save (p0\<lparr>pay_stripeInvoiceId := Some (inv_id i)\<rparr>) ?w")
            case (Inl e)
            then show ?thesis using \<open>inv_subscription i = Some sid\<close> s True Some same
              by (simp add: handleInvoicePaymentSucceeded_def Let_def)
          next
            case (Inr w')
            from Payment_save_keeps[OF Inr eq d in0 _ inv refl]
            have "pay_keeps R (payments w) (payments w')" by simp
            then show ?thesis using \<open>inv_subscription i = Some sid\<close> s True Some Inr same
              by (simp add: handleInvoicePaymentSucceeded_def Let_def)
          qed
        qed
      qed
    qed
  qed
qed

lemma intent_backfilled_id: "pay_id (fst (intent_backfilled pi c m p)) = pay_id p"
  by (simp add: intent_backfilled_def Let_def)

lemma intent_backfilled_card: "keeps_card p (fst (intent_backfilled pi c m p))"
  by (simp add: intent_backfilled_def Let_def keeps_card_def)

lemma intent_backfilled_status:
  "pay_status (fst (intent_backfilled pi c m p)) = pay_status p \<or>
   pay_status (fst (intent_backfilled pi c m p)) = pi_status pi"
  by (simp add: intent_backfilled_def Let_def)

lemma intent_backfilled_succeeded:
  "pi_status pi = ''succeeded'' \<Longrightarrow> keeps_succeeded p (fst (intent_backfilled pi c m p))"
  using intent_backfilled_status[of pi c m p] intent_backfilled_card[of p pi c m]
  by (auto simp: keeps_succeeded_def)

lemma intent_backfill_keeps:
  assumes d: "distinct (map pay_id xs)" and eq: "payments w = xs" and in0: "p0 \<in> set xs"
    and R: "R p0 (fst (intent_backfilled pi c m p0))" and refl: "reflp R"
  shows "pay_keeps R xs (payments (intent_backfill pi c m p0 w))"
proof (cases "snd (intent_backfilled pi c m p0)")
  case False
  then show ?thesis using pay_keeps_refl[OF d refl] eq
    by (simp add: intent_backfill_def case_prod_beta)
next
  case True
  show ?thesis
  proof (cases "Payment_save (fst (intent_backfilled pi c m p0)) w")
    case (Inl e)
    then show ?thesis using True pay_keeps_refl[OF d refl] eq
      by (simp add: intent_backfill_def case_prod_beta)
  next
    case (Inr w')
    from Payment_save_keeps[OF Inr eq d in0 intent_backfilled_id R refl]
    show ?thesis using True Inr by (simp add: intent_backfill_def case_prod_beta)
  qed
qed

lemma intent_create_payment_keeps:
  assumes d: "distinct (map pay_id xs)" and eq: "payments w = xs"
    and R: "\<forall>p. R p (fst (intent_backfilled pi c m p))" and refl: "reflp R"
  shows "pay_keeps R xs (payments (snd (intent_create_payment pi c m w)))"
proof (cases "intent_subscription pi w")
  case None
  then show ?thesis using pay_keeps_refl[OF d refl] eq by (simp add: intent_create_payment_def)
next
  case (Some s)
  show ?thesis
  proof (cases "User_findById w (sub_user s)")
    case None
    then show ?thesis using Some pay_keeps_refl[OF d refl] eq
      by (simp add: intent_create_payment_def)
  next
    case u: (Some u)
    show ?thesis
    proof (cases "Payment_create (intent_payment pi s u c m) w")
      case (Inr w')
      from Payment_create_keeps[OF Inr eq d refl] show ?thesis
        using Some u Inr by (simp add: intent_create_payment_def)
    next
      case (Inl e)
      show ?thesis
      proof (cases "Payment_findOne w (\<lambda>p. pay_stripePaymentIntentId p = pi_id pi)")
        case None
        then show ?thesis using Some u Inl pay_keeps_refl[OF d refl] eq
          by (simp add: intent_create_payment_def)
      next
        case p0: (Some p0)
        from Payment_findOne_in[OF p0] eq have in0: "p0 \<in> set xs" by simp
        from R have "R p0 (fst (intent_backfilled pi c m p0))" by simp
        from intent_backfill_keeps[OF d eq in0 this refl]
        show ?thesis using Some u Inl p0 pay_keeps_refl[OF d refl] eq
          by (simp add: intent_create_payment_def)
      qed
    qed
  qed
qed

lemma intent_succeeded_keeps:
  assumes d: "distinct (map pay_id (payments w))"
    and R: "\<forall>p c m. R p (fst (intent_backfilled pi c m p))" and refl: "reflp R"
  shows "pay_keeps R (payments w) (payments (snd (handlePaymentIntentSucceeded pi w)))"
proof (cases "Payment_findOne w (\<lambda>p. pay_stripePaymentIntentId p = pi_id pi)")
  case None
  from R have "\<forall>p. R p (fst (intent_backfilled pi
      (fst (extractCardDetailsFromPaymentIntent w (pi_id pi)))
      (snd (extractCardDetailsFromPaymentIntent w (pi_id pi))) p))" by simp
  from intent_create_payment_keeps[OF d HOL.refl this refl]
  show ?thesis using None by (simp add: handlePaymentIntentSucceeded_def case_prod_beta)
next
  case (Some p0)
  from R have "R p0 (fst (intent_backfilled pi
      (fst (extractCardDetailsFromPaymentIntent w (pi_id pi)))
      (snd (extractCardDetailsFromPaymentIntent w (pi_id pi))) p0))" by simp
  from intent_backfill_keeps[OF d HOL.refl Payment_findOne_in[OF Some] this refl]
  show ?thesis using Some by (simp add: handlePaymentIntentSucceeded_def case_prod_beta)
qed

lemma invoice_failed_keeps_card:
  assumes d: "distinct (map pay_id (payments w))"
  shows "pay_keeps keeps_card (payments w) (payments (snd (handleInvoicePaymentFailed i w)))"
proof -
  note same = pay_keeps_refl[OF d keeps_card_refl]
  show ?thesis
  proof (cases "truthy_str (inv_subscription i) \<and> Subscription_findOne w
                (\<lambda>s. sub_stripeSubscriptionId s = the_str (inv_subscription i)) \<noteq> None")
    case False
    then show ?thesis using same by (auto simp: handleInvoicePaymentFailed_def)
  next
    case True
    then obtain s where s: "truthy_str (inv_subscription i)"
      "Subscription_findOne w (\<lambda>s. sub_stripeSubscriptionId s = the_str (inv_subscription i)) = Some s"
      by auto
    show ?thesis
    proof (cases "Payment_findOne w (\<lambda>p. pay_stripePaymentIntentId p = finalPaymentIntentId w i)")
      case None
      show ?thesis
      proof (cases "User_findById w (sub_user s)")
        case u: None
        then show ?thesis using s None same by (simp add: handleInvoicePaymentFailed_def)
      next
        case u: (Some u)
        show ?thesis
        proof (cases "Payment_create (failed_payment i s u (finalPaymentIntentId w i)) w")
          case (Inl e)
          then show ?thesis using s None u same by (simp add: handleInvoicePaymentFailed_def)
        next
          case (Inr w')
          from Payment_create_keeps[OF Inr HOL.refl d keeps_card_refl]
          show ?thesis using s None u Inr by (simp add: handleInvoicePaymentFailed_def)
        qed
      qed
    next
      case (Some p0)
      let ?p = "p0\<lparr>pay_status := ''canceled'',
                    pay_failureReason := Some (str_or (inv_failure_message i) ''Payment failed'')\<rparr>"
      show ?thesis
      proof (cases "Payment_save ?p w")
        case (Inl e)
        then show ?thesis using s Some same by (simp add: handleInvoicePaymentFailed_def)
      next
        case (Inr w')
        have "pay_keeps keeps_card (payments w) (payments w')"
          by (rule Payment_save_keeps[OF Inr HOL.refl d Payment_findOne_in[OF Some] _ _ keeps_card_refl])
             (simp_all add: keeps_card_def)
        then show ?thesis using s Some Inr same by (simp add: handleInvoicePaymentFailed_def)
      qed
    qed
  qed
qed

lemma dispatch_keeps_card:
  assumes d: "distinct (map pay_id (payments w))"
  shows "pay_keeps keeps_card (payments w) (payments (snd (dispatch now ev w)))"
proof (cases ev)
  case (InvoicePaymentSucceeded i)
  then show ?thesis
    using invoice_succeeded_keeps[OF d keeps_card_refl, of now i] by (simp add: keeps_card_def)
next
  case (PaymentIntentSucceeded pi)
  then show ?thesis
    using intent_succeeded_keeps[OF d _ keeps_card_refl, of pi] by (simp add: intent_backfilled_card)
next
  case (InvoicePaymentFailed i)
  then show ?thesis using invoice_failed_keeps_card[OF d] by simp
qed (simp_all add: checkout_payments created_payments updated_payments deleted_payments
      trial_will_end_world pay_keeps_refl[OF d keeps_card_refl])

lemma dispatch_keeps_succeeded:
  assumes d: "distinct (map pay_id (payments w))"
    and nf: "\<forall>i. ev \<noteq> InvoicePaymentFailed i"
    and st: "\<forall>pi. ev = PaymentIntentSucceeded pi \<longrightarrow> pi_status pi = ''succeeded''"
  shows "pay_keeps keeps_succeeded (payments w) (payments (snd (dispatch now ev w)))"
proof (cases ev)
  case (InvoicePaymentSucceeded i)
  then show ?thesis
    using invoice_succeeded_keeps[OF d keeps_succeeded_refl, of now i]
    by (simp add: keeps_succeeded_def keeps_card_def)
next
  case (PaymentIntentSucceeded pi)
  with st have "pi_status pi = ''succeeded''" by simp
  then show ?thesis
    using intent_succeeded_keeps[OF d _ keeps_succeeded_refl, of pi] PaymentIntentSucceeded
    by (simp add: intent_backfilled_succeeded)
next
  case (InvoicePaymentFailed i)
  then show ?thesis using nf by simp
qed (simp_all add: checkout_payments created_payments updated_payments deleted_payments
      trial_will_end_world pay_keeps_refl[OF d keeps_succeeded_refl])

lemma invoice_failed_cancels:
  assumes d: "distinct (map pay_id (payments w))"
    and s: "truthy_str (inv_subscription i)"
      "Subscription_findOne w (\<lambda>s. sub_stripeSubscriptionId s = the_str (inv_subscription i)) \<noteq> None"
    and p: "Payment_findOne w (\<lambda>p. pay_stripePaymentIntentId p = finalPaymentIntentId w i) = Some p"
    and nc: "pay_status p \<noteq> ''canceled''" and v: "Payment_valid p"
  shows "find (\<lambda>x. pay_id x = pay_id p) (payments (snd (handleInvoicePaymentFailed i w))) =
     Some (p\<lparr>pay_status := ''canceled'',
             pay_failureReason := Some (str_or (inv_failure_message i) ''Payment failed'')\<rparr>)"
proof -
  let ?p = "p\<lparr>pay_status := ''canceled'',
             pay_failureReason := Some (str_or (inv_failure_message i) ''Payment failed'')\<rparr>"
  have v': "Payment_valid ?p" using v by (simp add: Payment_valid_def payment_statuses_def)
  have in0: "p \<in> set (payments w)" by (rule Payment_findOne_in[OF p])
  have "find (\<lambda>x. pay_id x = pay_id p) (map (\<lambda>r. if pay_id r = pay_id ?p then ?p else r) (payments w))
     = Some ?p"
    by (subst find_pay_id_map) (simp_all add: find_distinct_pay_id[OF d in0])
  then show ?thesis using s p nc v'
    by (auto simp: handleInvoicePaymentFailed_def Payment_save_def)
qed

text \<open>
  Claim C4, as the code has it. Document ids being distinct, every payment row is
  still there after any event, and a card that was set is the same afterwards. After
  any event other than \<open>invoice.payment_failed\<close> (a \<open>payment_intent.succeeded\<close>
  carrying the status \<open>succeeded\<close>) a row that was succeeded is still succeeded.
  \<open>invoice.payment_failed\<close>, when its subscription resolves, moves the existing row
  under its key to \<open>canceled\<close> whenever that row is not already canceled, a succeeded
  row included.
\<close>

theorem payment_no_regression:
  assumes d: "distinct (map pay_id (payments w))"
  shows "pay_keeps keeps_card (payments w) (payments (snd (dispatch now ev w))) \<and>
     ((\<forall>i. ev \<noteq> InvoicePaymentFailed i) \<and>
      (\<forall>pi. ev = PaymentIntentSucceeded pi \<longrightarrow> pi_status pi = ''succeeded'') \<longrightarrow>
        pay_keeps keeps_succeeded (payments w) (payments (snd (dispatch now ev w)))) \<and>
     (ev = InvoicePaymentFailed i \<and> truthy_str (inv_subscription i) \<and>
      Subscription_findOne w
        (\<lambda>s. sub_stripeSubscriptionId s = the_str (inv_subscription i)) \<noteq> None \<and>
      Payment_findOne w (\<lambda>p. pay_stripePaymentIntentId p = finalPaymentIntentId w i) = Some p \<and>
      pay_status p \<noteq> ''canceled'' \<and> Payment_valid p \<longrightarrow>
        find (\<lambda>x. pay_id x = pay_id p) (payments (snd (dispatch now ev w))) =
          Some (p\<lparr>pay_status := ''canceled'',
                  pay_failureReason :=
                    Some (str_or (inv_failure_message i) ''Payment failed'')\<rparr>))"
  using dispatch_keeps_card[OF d, of now ev] dispatch_keeps_succeeded[OF d, of ev now]
    invoice_failed_cancels[OF d, of i p]
  by auto

text \<open>
  The claim as written fails on the paid example: the payment \<open>pi_1\<close> is succeeded,
  the \<open>invoice.payment_failed\<close> event of the same invoice resolves to the same key, and
  the row is canceled afterwards. The handler's guard is that the status is not
  \<open>canceled\<close>.
\<close>

theorem payment_regression_counterexample:
  "map pay_status (payments ex_paid_world) = [''succeeded''] \<and>
   map pay_stripePaymentIntentId (payments ex_paid_world) = [''pi_1''] \<and>
   finalPaymentIntentId ex_paid_world ex_invoice = ''pi_1'' \<and>
   map pay_status (payments (snd (dispatch 5000 (InvoicePaymentFailed ex_invoice) ex_paid_world)))
     = [''canceled'']"
  by (simp add: handleInvoicePaymentFailed_def finalPaymentIntentId_def
      getInvoicePaymentIntentId_def truthy_str_def the_str_def str_or_def
      Subscription_findOne_def Payment_findOne_def Payment_save_def Payment_valid_def
      enum_defs ex_defs)

text \<open>
  On the paid example: a repeated \<open>payment_intent.succeeded\<close> leaves status and card,
  and the failed invoice cancels the row.
\<close>

theorem payment_no_regression_witness:
  "distinct (map pay_id (payments ex_paid_world)) \<and>
   map (\<lambda>p. (pay_status p, pay_cardDetails p))
     (payments (snd (dispatch 5000 (PaymentIntentSucceeded ex_intent) ex_paid_world)))
     = [(''succeeded'', Some (card_of ex_card))] \<and>
   find (\<lambda>x. pay_id x = 1)
     (payments (snd (dispatch 5000 (InvoicePaymentFailed ex_invoice) ex_paid_world)))
     = Some (ex_payment\<lparr>pay_status := ''canceled'', pay_failureReason := Some ''Payment failed''\<rparr>)"
proof -
  have d: "distinct (map pay_id (payments ex_paid_world))" by (simp add: ex_defs)
  have h: "truthy_str (inv_subscription ex_invoice) \<and>
      Subscription_findOne ex_paid_world
        (\<lambda>s. sub_stripeSubscriptionId s = the_str (inv_subscription ex_invoice)) \<noteq> None \<and>
      Payment_findOne ex_paid_world
        (\<lambda>p. pay_stripePaymentIntentId p = finalPaymentIntentId ex_paid_world ex_invoice)
        = Some ex_payment \<and>
      pay_status ex_payment \<noteq> ''canceled'' \<and> Payment_valid ex_payment"
    by (simp add: finalPaymentIntentId_def getInvoicePaymentIntentId_def truthy_str_def
        the_str_def str_or_def Subscription_findOne_def Payment_findOne_def Payment_valid_def
        enum_defs ex_defs)
  have "pay_keeps keeps_succeeded (payments ex_paid_world)
          (payments (snd (dispatch 5000 (PaymentIntentSucceeded ex_intent) ex_paid_world)))"
    using payment_no_regression[OF d, of 5000 "PaymentIntentSucceeded ex_intent"]
    by (simp add: ex_intent_def)
  moreover have "length (payments (snd (dispatch 5000 (PaymentIntentSucceeded ex_intent) ex_paid_world))) = 1"
    by (simp add: handlePaymentIntentSucceeded_def Payment_findOne_def intent_backfill_def
        Payment_save_def case_prod_beta ex_defs)
  ultimately have a: "map (\<lambda>p. (pay_status p, pay_cardDetails p))
     (payments (snd (dispatch 5000 (PaymentIntentSucceeded ex_intent) ex_paid_world)))
     = [(''succeeded'', Some (card_of ex_card))]"
    by (cases "payments (snd (dispatch 5000 (PaymentIntentSucceeded ex_intent) ex_paid_world))")
       (auto simp: pay_keeps_def keeps_succeeded_def keeps_card_def ex_paid_world_def ex_world_def
          ex_payment_def split: if_splits)
  have b: "find (\<lambda>x. pay_id x = 1)
     (payments (snd (dispatch 5000 (InvoicePaymentFailed ex_invoice) ex_paid_world)))
     = Some (ex_payment\<lparr>pay_status := ''canceled'', pay_failureReason := Some ''Payment failed''\<rparr>)"
    using payment_no_regression[OF d, of 5000 "InvoicePaymentFailed ex_invoice" ex_invoice ex_payment] h
    by (simp add: ex_payment_def ex_invoice_def str_or_def)
  show ?thesis using d a b by simp
qed

section \<open>Idempotent payment recording\<close>

lemma find_append_new:
  "find P xs = None \<Longrightarrow> P x \<Longrightarrow> find P (xs @ [x]) = Some x"
  by (induction xs) (auto split: if_splits)

lemma invoice_paymentType_valid: "invoice_paymentType i s \<in> set payment_types"
  by (simp add: invoice_paymentType_def payment_types_def)

lemma invoice_payment_valid:
  "k \<noteq> [] \<Longrightarrow> Payment_valid (invoice_payment i s u k (invoice_paymentType i s))"
  using invoice_paymentType_valid[of i s]
  by (simp add: Payment_valid_def invoice_payment_def payment_statuses_def)

lemma invoice_key_nonempty: "invoice_key w i \<noteq> []"
  by (auto simp: invoice_key_def truthy_str_def the_str_def split: option.splits)

text \<open>What an upgrade leaves alone.\<close>

lemma upgrade_frame:
  "users (upgradeToRecurringSubscription s w) = users w \<and>
   remote_paymentIntents (upgradeToRecurringSubscription s w) = remote_paymentIntents w \<and>
   remote_invoices (upgradeToRecurringSubscription s w) = remote_invoices w \<and>
   remote_charges (upgradeToRecurringSubscription s w) = remote_charges w \<and>
   obj_InvoiceId (upgradeToRecurringSubscription s w) = obj_InvoiceId w"
  by (auto simp: upgradeToRecurringSubscription_def stripe_subscriptions_update_def
      Subscription_save_def Let_def split: option.split list.split sum.split if_splits)

lemma upgrade_still_found:
  assumes "Subscription_findOne w (\<lambda>r. sub_stripeSubscriptionId r = sid) = Some s"
  shows "Subscription_findOne (upgradeToRecurringSubscription s w)
           (\<lambda>r. sub_stripeSubscriptionId r = sid) \<noteq> None"
proof -
  from assms have in0: "s \<in> set (subscriptions w)" and P: "sub_stripeSubscriptionId s = sid"
    by (auto simp: Subscription_findOne_def dest: find_SomeD)
  from upgrade_cases[of s w] show ?thesis
  proof (elim disjE exE conjE)
    assume "upgradeToRecurringSubscription s w = w"
    then show ?thesis using assms by simp
  next
    fix rp it w1
    assume "stripe_subscriptions_update w (sub_stripeSubscriptionId s) it (plan_stripePriceId rp) = Inr w1"
      "upgradeToRecurringSubscription s w = w1"
    then show ?thesis using assms stripe_update_subs[of w _ it _ w1]
      by (simp add: Subscription_findOne_def)
  next
    fix rp it w1 price w2
    assume u: "stripe_subscriptions_update w (sub_stripeSubscriptionId s) it (plan_stripePriceId rp) = Inr w1"
      and sv: "Subscription_save (upgraded rp price s) w1 = Inr w2"
      and r: "upgradeToRecurringSubscription s w = w2"
    from sv stripe_update_subs[OF u] have
      "subscriptions w2 = map (\<lambda>r. if sub_id r = sub_id (upgraded rp price s)
                                    then upgraded rp price s else r) (subscriptions w)"
      by (auto simp: Subscription_save_def split: if_splits)
    moreover have "sub_id (upgraded rp price s) = sub_id s"
      "sub_stripeSubscriptionId (upgraded rp price s) = sid"
      using P by (simp_all add: upgraded_def)
    ultimately have "upgraded rp price s \<in> set (subscriptions w2)" using in0 by force
    then show ?thesis using r \<open>sub_stripeSubscriptionId (upgraded rp price s) = sid\<close>
      by (auto simp: Subscription_findOne_def find_None_iff)
  qed
qed


lemma Payment_create_ok:
  assumes "Payment_valid p"
    "Payment_findOne w (\<lambda>r. pay_stripePaymentIntentId r = pay_stripePaymentIntentId p) = None"
  shows "Payment_create p w =
     Inr (w\<lparr>payments := payments w @ [p\<lparr>pay_id := fresh_id (map pay_id (payments w))\<rparr>]\<rparr>)"
  using assms by (auto simp: Payment_create_def Payment_findOne_def find_None_iff)

lemma invoice_upgrade_check_frame:
  "fst (invoice_upgrade_check now s w) = Done \<and>
   payments (snd (invoice_upgrade_check now s w)) = payments w \<and>
   users (snd (invoice_upgrade_check now s w)) = users w \<and>
   remote_paymentIntents (snd (invoice_upgrade_check now s w)) = remote_paymentIntents w \<and>
   remote_invoices (snd (invoice_upgrade_check now s w)) = remote_invoices w \<and>
   remote_charges (snd (invoice_upgrade_check now s w)) = remote_charges w"
  by (simp add: invoice_upgrade_check_def upgrade_frame upgrade_payments)

lemma invoice_upgrade_check_found:
  assumes "Subscription_findOne w (\<lambda>r. sub_stripeSubscriptionId r = sid) = Some s"
  shows "Subscription_findOne (snd (invoice_upgrade_check now s w))
           (\<lambda>r. sub_stripeSubscriptionId r = sid) \<noteq> None"
  using assms upgrade_still_found[OF assms]
  by (simp add: invoice_upgrade_check_def)

lemma invoice_first:
  assumes rec: "recordable w i"
  obtains s u where
    "Subscription_findOne w (\<lambda>s. sub_stripeSubscriptionId s = the_str (inv_subscription i)) = Some s"
    "User_findById w (sub_user s) = Some u"
    "fst (handleInvoicePaymentSucceeded now i w) = Done"
    "payments (snd (handleInvoicePaymentSucceeded now i w)) = payments w @ [first_row w i s u]"
    "users (snd (handleInvoicePaymentSucceeded now i w)) = users w"
    "remote_paymentIntents (snd (handleInvoicePaymentSucceeded now i w)) = remote_paymentIntents w"
    "remote_invoices (snd (handleInvoicePaymentSucceeded now i w)) = remote_invoices w"
    "remote_charges (snd (handleInvoicePaymentSucceeded now i w)) = remote_charges w"
    "Subscription_findOne (snd (handleInvoicePaymentSucceeded now i w))
       (\<lambda>s. sub_stripeSubscriptionId s = the_str (inv_subscription i)) \<noteq> None"
proof -
  let ?w = "w\<lparr>obj_InvoiceId := Some (inv_id i)\<rparr>"
  from rec obtain sid where sid: "inv_subscription i = Some sid" "sid \<noteq> []"
    by (auto simp: recordable_def truthy_str_def split: option.splits)
  then have ts: "the_str (inv_subscription i) = sid" by (simp add: the_str_def)
  from rec obtain s u where
    s: "Subscription_findOne w (\<lambda>s. sub_stripeSubscriptionId s = sid) = Some s"
    and u: "User_findById w (sub_user s) = Some u"
    and none: "Payment_findOne w (\<lambda>p. pay_stripePaymentIntentId p = invoice_key w i) = None"
    by (auto simp: recordable_def ts split: option.splits)
  have s': "Subscription_findOne ?w (\<lambda>s. sub_stripeSubscriptionId s = sid) = Some s"
    using s by (simp add: Subscription_findOne_def)
  have u': "User_findById ?w (sub_user s) = Some u" using u by (simp add: User_findById_def)
  have g: "getInvoicePaymentIntentId ?w i = getInvoicePaymentIntentId w i"
    by (simp add: getInvoicePaymentIntentId_def split: option.split)
  have none': "Payment_findOne ?w (\<lambda>p. pay_stripePaymentIntentId p = invoice_key w i) = None"
    using none by (simp add: Payment_findOne_def)
  let ?p = "invoice_payment i s u (invoice_key w i) (invoice_paymentType i s)"
  have v: "Payment_valid ?p" by (rule invoice_payment_valid[OF invoice_key_nonempty])
  have k: "pay_stripePaymentIntentId ?p = invoice_key w i" by (simp add: invoice_payment_def)
  let ?w1 = "?w\<lparr>payments := payments w @ [first_row w i s u]\<rparr>"
  have c: "Payment_create ?p ?w = Inr ?w1"
    using Payment_create_ok[of ?p ?w] v none' by (simp add: k first_row_def)
  have s1: "Subscription_findOne ?w1 (\<lambda>s. sub_stripeSubscriptionId s = sid) = Some s"
    using s by (simp add: Subscription_findOne_def)
  show ?thesis
  proof (cases "truthy_str (getInvoicePaymentIntentId w i)")
    case True
    then have key: "invoice_key w i = the_str (getInvoicePaymentIntentId w i)"
      by (simp add: invoice_key_def)
    have h: "handleInvoicePaymentSucceeded now i w = invoice_upgrade_check now s ?w1"
      using sid s' True none' c u'
      by (simp add: handleInvoicePaymentSucceeded_def Let_def g key[symmetric]
          invoice_create_payment_def)
    show ?thesis
      using that[of s u] s u invoice_upgrade_check_frame[of now s ?w1]
        invoice_upgrade_check_found[OF s1, of now]
      by (simp add: h ts)
  next
    case False
    then have key: "invoice_key w i = ''invoice_'' @ inv_id i"
      by (simp add: invoice_key_def)
    have h: "handleInvoicePaymentSucceeded now i w = (Done, ?w1)"
      using sid s' False none' c u'
      by (simp add: handleInvoicePaymentSucceeded_def Let_def g key invoice_fallback_def)
    show ?thesis using that[of s u] s u s1 by (simp add: h ts)
  qed
qed

lemma getInvoicePaymentIntentId_cong:
  "remote_charges w1 = remote_charges w \<Longrightarrow>
   getInvoicePaymentIntentId w1 i = getInvoicePaymentIntentId w i"
  by (simp add: getInvoicePaymentIntentId_def split: option.split)

lemma invoice_key_cong:
  "remote_charges w1 = remote_charges w \<Longrightarrow> invoice_key w1 i = invoice_key w i"
  using getInvoicePaymentIntentId_cong[of w1 w i] by (simp add: invoice_key_def)

lemma invoice_existing:
  assumes sub: "truthy_str (inv_subscription i)"
      "Subscription_findOne w (\<lambda>s. sub_stripeSubscriptionId s = the_str (inv_subscription i)) \<noteq> None"
    and p: "Payment_findOne w (\<lambda>p. pay_stripePaymentIntentId p = invoice_key w i) = Some p"
    and t: "truthy_str (pay_stripeInvoiceId p)"
  shows "handleInvoicePaymentSucceeded now i w = (Done, w\<lparr>obj_InvoiceId := Some (inv_id i)\<rparr>)"
proof -
  let ?w = "w\<lparr>obj_InvoiceId := Some (inv_id i)\<rparr>"
  from sub obtain sid where sid: "inv_subscription i = Some sid" "sid \<noteq> []"
    by (auto simp: truthy_str_def split: option.splits)
  then have ts: "the_str (inv_subscription i) = sid" by (simp add: the_str_def)
  from sub(2) obtain s where
    s: "Subscription_findOne ?w (\<lambda>s. sub_stripeSubscriptionId s = sid) = Some s"
    by (auto simp: Subscription_findOne_def ts)
  have g: "getInvoicePaymentIntentId ?w i = getInvoicePaymentIntentId w i"
    by (rule getInvoicePaymentIntentId_cong) simp
  have p': "Payment_findOne ?w (\<lambda>p. pay_stripePaymentIntentId p = invoice_key w i) = Some p"
    using p by (simp add: Payment_findOne_def)
  show ?thesis
  proof (cases "truthy_str (getInvoicePaymentIntentId w i)")
    case True
    then have "invoice_key w i = the_str (getInvoicePaymentIntentId w i)"
      by (simp add: invoice_key_def)
    with p' show ?thesis using sid s True t
      by (simp add: handleInvoicePaymentSucceeded_def Let_def g)
  next
    case False
    then have "invoice_key w i = ''invoice_'' @ inv_id i" by (simp add: invoice_key_def)
    with p' show ?thesis using sid s False
      by (simp add: handleInvoicePaymentSucceeded_def Let_def g invoice_fallback_def)
  qed
qed

lemma first_row_fields:
  "pay_stripePaymentIntentId (first_row w i s u) = invoice_key w i"
  "pay_stripeInvoiceId (first_row w i s u) = Some (inv_id i)"
  "pay_status (first_row w i s u) = ''succeeded''"
  "pay_cardDetails (first_row w i s u) = None"
  "pay_amount (first_row w i s u) = num_or (inv_amount_paid i) (num_or (inv_amount_due i) 0)"
  "pay_id (first_row w i s u) = fresh_id (map pay_id (payments w))"
  by (simp_all add: first_row_def invoice_payment_def)

lemma first_row_valid: "Payment_valid (first_row w i s u)"
  using invoice_payment_valid[OF invoice_key_nonempty, of i s u w]
  by (simp add: first_row_def Payment_valid_def)

lemma invoice_twice:
  assumes rec: "recordable w i"
  shows "fst (handleInvoicePaymentSucceeded now i w) = Done \<and>
     fst (handleInvoicePaymentSucceeded now' i (snd (handleInvoicePaymentSucceeded now i w))) = Done \<and>
     payments (snd (handleInvoicePaymentSucceeded now' i
                      (snd (handleInvoicePaymentSucceeded now i w)))) =
       payments (snd (handleInvoicePaymentSucceeded now i w)) \<and>
     (\<exists>p. payments (snd (handleInvoicePaymentSucceeded now i w)) = payments w @ [p] \<and>
          pay_stripePaymentIntentId p = invoice_key w i) \<and>
     length (filter (\<lambda>p. pay_stripePaymentIntentId p = invoice_key w i)
               (payments (snd (handleInvoicePaymentSucceeded now' i
                                 (snd (handleInvoicePaymentSucceeded now i w)))))) = 1"
proof -
  let ?w1 = "snd (handleInvoicePaymentSucceeded now i w)"
  from rec have none: "Payment_findOne w (\<lambda>p. pay_stripePaymentIntentId p = invoice_key w i) = None"
    and id: "inv_id i \<noteq> []" and tsub: "truthy_str (inv_subscription i)"
    by (simp_all add: recordable_def)
  from invoice_first[OF rec, of now] obtain s u where
    f: "fst (handleInvoicePaymentSucceeded now i w) = Done"
    and pay: "payments ?w1 = payments w @ [first_row w i s u]"
    and ch: "remote_charges ?w1 = remote_charges w"
    and found: "Subscription_findOne ?w1
       (\<lambda>s. sub_stripeSubscriptionId s = the_str (inv_subscription i)) \<noteq> None"
    by blast
  have key1: "invoice_key ?w1 i = invoice_key w i" by (rule invoice_key_cong[OF ch])
  have p1: "Payment_findOne ?w1 (\<lambda>p. pay_stripePaymentIntentId p = invoice_key ?w1 i)
              = Some (first_row w i s u)"
    using none find_append_new[of "\<lambda>p. pay_stripePaymentIntentId p = invoice_key w i"
        "payments w" "first_row w i s u"]
    by (simp add: Payment_findOne_def pay key1 first_row_fields)
  have t: "truthy_str (pay_stripeInvoiceId (first_row w i s u))"
    using id by (simp add: first_row_fields truthy_str_def)
  note second = invoice_existing[OF tsub found p1 t, of now']
  have nofilter: "filter (\<lambda>p. pay_stripePaymentIntentId p = invoice_key w i) (payments w) = []"
    using none by (auto simp: Payment_findOne_def find_None_iff filter_empty_conv)
  show ?thesis
    using f pay by (simp add: second nofilter first_row_fields)
qed

lemma map_replace_fresh:
  "map (\<lambda>r. if pay_id r = fresh_id (map pay_id xs) then p else r) xs = xs"
proof -
  have "\<forall>r \<in> set xs. pay_id r \<noteq> fresh_id (map pay_id xs)"
    using fresh_id_notin[of "map pay_id xs"] by force
  then show ?thesis by (simp add: map_idI)
qed

lemma same_transaction_key:
  assumes "same_transaction w i pi"
  shows "invoice_key w i = pi_id pi"
  using assms
  by (simp add: same_transaction_def invoice_key_def getInvoicePaymentIntentId_def
      truthy_str_def the_str_def)

lemma extract_cong:
  "remote_paymentIntents w1 = remote_paymentIntents w \<Longrightarrow>
   extractCardDetailsFromPaymentIntent w1 k = extractCardDetailsFromPaymentIntent w k"
  by (simp add: extractCardDetailsFromPaymentIntent_def)

text \<open>
  The update of a row that \<open>invoice.payment_succeeded\<close> stored, by a succeeded
  intent: the card details stay what they were, whatever the provider gives.
\<close>

lemma intent_backfilled_first:
  assumes "pi_status pi = ''succeeded''" "pay_status p0 = ''succeeded''"
  shows "pay_cardDetails (fst (intent_backfilled pi c m p0)) = pay_cardDetails p0"
    "pay_status (fst (intent_backfilled pi c m p0)) = ''succeeded''"
    "pay_stripePaymentIntentId (fst (intent_backfilled pi c m p0)) = pay_stripePaymentIntentId p0"
    "pay_amount (fst (intent_backfilled pi c m p0)) =
       (if pay_amount p0 = 0 then pi_amount pi else pay_amount p0)"
    "Payment_valid p0 \<Longrightarrow> Payment_valid (fst (intent_backfilled pi c m p0))"
  using assms by (simp_all add: intent_backfilled_def Let_def Payment_valid_def)

lemma intent_backfilled_same:
  assumes "\<not> snd (intent_backfilled pi c m p0)"
  shows "fst (intent_backfilled pi c m p0) = p0"
proof -
  have n2: "\<not> (truthy_str m \<and> \<not> truthy_str (pay_paymentMethod p0))"
    using assms by (simp add: intent_backfilled_def Let_def)
  have n3: "\<not> (pi_status pi \<noteq> [] \<and> pay_status p0 \<noteq> pi_status pi)"
    using assms by (simp add: intent_backfilled_def Let_def n2)
  have n4: "\<not> (truthy_str (pi_receipt_url pi) \<and> \<not> truthy_str (pay_receiptUrl p0))"
    using assms by (simp add: intent_backfilled_def Let_def n2 n3)
  have n5: "\<not> (pi_amount pi \<noteq> 0 \<and> pay_amount p0 = 0)"
    using assms by (simp add: intent_backfilled_def Let_def n2 n3 n4)
  show ?thesis
    by (simp add: intent_backfilled_def Let_def n2 n3 n4 n5)
qed

lemma invoice_then_intent:
  assumes st: "same_transaction w i pi"
  shows "fst (handlePaymentIntentSucceeded pi (snd (handleInvoicePaymentSucceeded now i w))) = Done \<and>
     (\<exists>p. payments (snd (handlePaymentIntentSucceeded pi
                            (snd (handleInvoicePaymentSucceeded now i w)))) = payments w @ [p] \<and>
          pay_stripePaymentIntentId p = pi_id pi \<and>
          pay_status p = ''succeeded'' \<and>
          pay_amount p =
            (if num_or (inv_amount_paid i) (num_or (inv_amount_due i) 0) = 0 then pi_amount pi
             else num_or (inv_amount_paid i) (num_or (inv_amount_due i) 0)) \<and>
          pay_cardDetails p = None)"
proof -
  let ?w1 = "snd (handleInvoicePaymentSucceeded now i w)"
  from st have rec: "recordable w i" and succ: "pi_status pi = ''succeeded''"
    by (simp_all add: same_transaction_def)
  note key = same_transaction_key[OF st]
  from rec have none: "Payment_findOne w (\<lambda>p. pay_stripePaymentIntentId p = invoice_key w i) = None"
    by (simp add: recordable_def)
  from invoice_first[OF rec, of now] obtain s u where
    pay: "payments ?w1 = payments w @ [first_row w i s u]"
    and rp: "remote_paymentIntents ?w1 = remote_paymentIntents w"
    by blast
  let ?r = "first_row w i s u"
  let ?c = "fst (extractCardDetailsFromPaymentIntent w (pi_id pi))"
  let ?m = "snd (extractCardDetailsFromPaymentIntent w (pi_id pi))"
  let ?p = "fst (intent_backfilled pi ?c ?m ?r)"
  have ex: "extractCardDetailsFromPaymentIntent ?w1 (pi_id pi)
              = extractCardDetailsFromPaymentIntent w (pi_id pi)"
    by (rule extract_cong[OF rp])
  have p1: "Payment_findOne ?w1 (\<lambda>p. pay_stripePaymentIntentId p = pi_id pi) = Some ?r"
    using none find_append_new[of "\<lambda>p. pay_stripePaymentIntentId p = pi_id pi"
        "payments w" ?r]
    by (simp add: Payment_findOne_def pay key first_row_fields)
  note bf = intent_backfilled_first[OF succ first_row_fields(3)[of w i s u],
      where c = ?c and m = ?m]
  have v: "Payment_valid ?p" by (rule bf(5)[OF first_row_valid])
  have id: "pay_id ?p = fresh_id (map pay_id (payments w))"
    by (simp add: intent_backfilled_id first_row_fields)
  have sv: "Payment_save ?p ?w1 = Inr (?w1\<lparr>payments := payments w @ [?p]\<rparr>)"
    using v by (simp add: Payment_save_def pay id map_replace_fresh first_row_fields)
  have h: "fst (handlePaymentIntentSucceeded pi ?w1) = Done \<and>
     payments (snd (handlePaymentIntentSucceeded pi ?w1)) = payments w @ [?p]"
  proof (cases "snd (intent_backfilled pi ?c ?m ?r)")
    case True
    then show ?thesis
      using p1 sv
      by (simp add: handlePaymentIntentSucceeded_def case_prod_beta ex intent_backfill_def)
  next
    case False
    then have "?p = ?r" by (rule intent_backfilled_same)
    with False show ?thesis
      using p1 pay
      by (simp add: handlePaymentIntentSucceeded_def case_prod_beta ex intent_backfill_def)
  qed
  show ?thesis
    using h bf(1,2,3,4) by (simp add: first_row_fields key)
qed

lemma intent_paymentType_valid:
  assumes "truthy_str (md_paymentType (pi_metadata pi)) \<longrightarrow>
        the_str (md_paymentType (pi_metadata pi)) \<in> set payment_types"
  shows "intent_paymentType pi s \<in> set payment_types"
  using assms by (auto simp: intent_paymentType_def payment_types_def)

lemma intent_then_invoice:
  assumes st: "same_transaction w i pi"
  shows "fst (handlePaymentIntentSucceeded pi w) = Done \<and>
     fst (handleInvoicePaymentSucceeded now i (snd (handlePaymentIntentSucceeded pi w))) = Done \<and>
     (\<exists>p. payments (snd (handleInvoicePaymentSucceeded now i
                            (snd (handlePaymentIntentSucceeded pi w)))) = payments w @ [p] \<and>
          pay_stripePaymentIntentId p = pi_id pi \<and>
          pay_status p = ''succeeded'' \<and>
          pay_amount p = pi_amount pi \<and>
          pay_cardDetails p = fst (extractCardDetailsFromPaymentIntent w (pi_id pi)))"
proof -
  from st have rec: "recordable w i" and succ: "pi_status pi = ''succeeded''"
    and pid: "pi_id pi \<noteq> []" and pinv: "pi_invoice pi = Some (inv_id i)"
    and pt: "truthy_str (md_paymentType (pi_metadata pi)) \<longrightarrow>
        the_str (md_paymentType (pi_metadata pi)) \<in> set payment_types"
    by (simp_all add: same_transaction_def)
  from st obtain ri where ri: "map_of (remote_invoices w) (inv_id i) = Some ri"
    "inv_subscription ri = inv_subscription i"
    by (auto simp: same_transaction_def split: option.splits)
  note key = same_transaction_key[OF st]
  from rec have none: "Payment_findOne w (\<lambda>p. pay_stripePaymentIntentId p = pi_id pi) = None"
    and id: "inv_id i \<noteq> []" and tsub: "truthy_str (inv_subscription i)"
    by (simp_all add: recordable_def key)
  from rec obtain s u where
    s: "Subscription_findOne w (\<lambda>s. sub_stripeSubscriptionId s = the_str (inv_subscription i)) = Some s"
    and u: "User_findById w (sub_user s) = Some u"
    by (auto simp: recordable_def split: option.splits)
  let ?c = "fst (extractCardDetailsFromPaymentIntent w (pi_id pi))"
  let ?m = "snd (extractCardDetailsFromPaymentIntent w (pi_id pi))"
  let ?n = "intent_payment pi s u ?c ?m"
  let ?r = "?n\<lparr>pay_id := fresh_id (map pay_id (payments w))\<rparr>"
  let ?w1 = "w\<lparr>payments := payments w @ [?r]\<rparr>"
  have isub: "intent_subscription pi w = Some s"
    using pinv id ri tsub s by (simp add: intent_subscription_def truthy_str_def the_str_def)
  have v: "Payment_valid ?n"
    using intent_paymentType_valid[OF pt, of s] succ pid
    by (simp add: Payment_valid_def intent_payment_def payment_statuses_def)
  have k: "pay_stripePaymentIntentId ?n = pi_id pi" by (simp add: intent_payment_def)
  have c: "Payment_create ?n w = Inr ?w1"
    using Payment_create_ok[of ?n w] v none by (simp add: k)
  have h1: "handlePaymentIntentSucceeded pi w = (Done, ?w1)"
    using none isub u c
    by (simp add: handlePaymentIntentSucceeded_def case_prod_beta intent_create_payment_def)
  have key1: "invoice_key ?w1 i = pi_id pi"
    using invoice_key_cong[of ?w1 w i] key by simp
  have found: "Subscription_findOne ?w1
       (\<lambda>s. sub_stripeSubscriptionId s = the_str (inv_subscription i)) \<noteq> None"
    using s by (simp add: Subscription_findOne_def)
  have p1: "Payment_findOne ?w1 (\<lambda>p. pay_stripePaymentIntentId p = invoice_key ?w1 i) = Some ?r"
    using none find_append_new[of "\<lambda>p. pay_stripePaymentIntentId p = pi_id pi" "payments w" ?r]
    by (simp add: Payment_findOne_def key1 k)
  have t: "truthy_str (pay_stripeInvoiceId ?r)"
    using pinv id by (simp add: intent_payment_def str_or_null_def truthy_str_def)
  note h2 = invoice_existing[OF tsub found p1 t, of now]
  show ?thesis
    apply (simp only: h1 fst_conv snd_conv h2)
    apply (simp add: intent_payment_def succ)
    done
qed

lemma backfill_ids:
  "map pay_id (payments (intent_backfill pi c m p0 w)) = map pay_id (payments w)"
proof -
  have "map pay_id (map (\<lambda>r. if pay_id r = pay_id p0 then fst (intent_backfilled pi c m p0) else r)
          xs) = map pay_id xs" for xs
    by (induction xs) (auto simp: intent_backfilled_id)
  then show ?thesis
    by (auto simp: intent_backfill_def case_prod_beta Payment_save_def intent_backfilled_id
        split: sum.split)
qed

lemma duplicate_key_is_success:
  "(User_findById w (sub_user s) = Some u \<and>
    Payment_create (invoice_payment i s u k pt) w = Inl DuplicateKey \<longrightarrow>
      fst (invoice_create_payment now i s pt k w) = Done \<and>
      payments (snd (invoice_create_payment now i s pt k w)) = payments w) \<and>
   (intent_subscription pi w = Some s \<and> User_findById w (sub_user s) = Some u \<and>
    Payment_create (intent_payment pi s u c m) w = Inl DuplicateKey \<longrightarrow>
      fst (intent_create_payment pi c m w) = Done \<and>
      map pay_id (payments (snd (intent_create_payment pi c m w))) = map pay_id (payments w))"
proof -
  have a: "fst (invoice_create_payment now i s pt k w) = Done \<and>
      payments (snd (invoice_create_payment now i s pt k w)) = payments w"
    if "User_findById w (sub_user s) = Some u"
      "Payment_create (invoice_payment i s u k pt) w = Inl DuplicateKey"
    using that by (simp add: invoice_create_payment_def invoice_upgrade_check_frame)
  have b: "fst (intent_create_payment pi c m w) = Done \<and>
      map pay_id (payments (snd (intent_create_payment pi c m w))) = map pay_id (payments w)"
    if "intent_subscription pi w = Some s" "User_findById w (sub_user s) = Some u"
      "Payment_create (intent_payment pi s u c m) w = Inl DuplicateKey"
    using that by (auto simp: intent_create_payment_def backfill_ids split: option.split)
  show ?thesis using a b by blast
qed

text \<open>
  The provider's card of the example, and the example's two events: each names the
  other.
\<close>

lemma ex_extract:
  "extractCardDetailsFromPaymentIntent ex_world ''pi_1'' =
     (Some \<lparr>brand = Some ''visa'', last4 = Some ''4242'', expMonth = Some 12,
             expYear = Some 2030, funding = Some ''credit'', country = Some ''DE''\<rparr>,
      Some ''pm_1'')"
  by (simp add: extractCardDetailsFromPaymentIntent_def card_of_def str_or_null_def
      num_or_null_def truthy_str_def ex_defs)

lemma ex_recordable: "recordable ex_world ex_invoice"
  by (simp add: recordable_def invoice_key_def getInvoicePaymentIntentId_def truthy_str_def
      the_str_def Subscription_findOne_def User_findById_def Payment_findOne_def ex_defs)

lemma ex_same_transaction: "same_transaction ex_world ex_invoice ex_intent"
  using ex_recordable ex_extract
  by (simp add: same_transaction_def truthy_str_def ex_intent_def ex_invoice_def
      ex_metadata_def ex_world_def)

text \<open>
  The parts of claim C1 that hold, on the example: two deliveries of the invoice
  leave one row, and a duplicate key at either creation step completes the step and
  adds no row.
\<close>

lemma ex_invoice_twice:
  "map (\<lambda>p. (pay_stripePaymentIntentId p, pay_stripeInvoiceId p, pay_status p, pay_amount p))
     (payments (snd (handleInvoicePaymentSucceeded 2000 ex_invoice
                       (snd (handleInvoicePaymentSucceeded 1000 ex_invoice ex_world)))))
     = [(''pi_1'', Some ''in_1'', ''succeeded'', 200)]"
proof -
  have k: "invoice_key ex_world ex_invoice = ''pi_1''"
    using same_transaction_key[OF ex_same_transaction] by (simp add: ex_intent_def)
  have e: "payments ex_world = []" by (simp add: ex_world_def)
  have amt: "num_or (inv_amount_paid ex_invoice) (num_or (inv_amount_due ex_invoice) 0) = 200"
    "inv_id ex_invoice = ''in_1''"
    by (simp_all add: num_or_def ex_invoice_def)
  from invoice_first[OF ex_recordable, of 1000] obtain s u where
    pay: "payments (snd (handleInvoicePaymentSucceeded 1000 ex_invoice ex_world)) =
            payments ex_world @ [first_row ex_world ex_invoice s u]"
    by blast
  from invoice_twice[OF ex_recordable, of 1000 2000] show ?thesis
    by (simp add: pay e k first_row_fields amt)
qed

lemma ex_duplicate_key:
  "Payment_create (invoice_payment ex_invoice ex_sub ex_user ''pi_1'' ''initial_payment'')
     ex_paid_world = Inl DuplicateKey \<and>
   invoice_create_payment 1000 ex_invoice ex_sub ''initial_payment'' ''pi_1'' ex_paid_world
     = (Done, ex_paid_world) \<and>
   Payment_create (intent_payment ex_intent ex_sub ex_user None (Some ''pm_1''))
     ex_paid_world = Inl DuplicateKey \<and>
   fst (intent_create_payment ex_intent None (Some ''pm_1'') ex_paid_world) = Done \<and>
   map pay_id (payments (snd (intent_create_payment ex_intent None (Some ''pm_1'')
                                ex_paid_world))) = [1]"
proof -
  have u: "User_findById ex_paid_world (sub_user ex_sub) = Some ex_user"
    by (simp add: User_findById_def ex_defs)
  have isub: "intent_subscription ex_intent ex_paid_world = Some ex_sub"
    by (simp add: intent_subscription_def truthy_str_def the_str_def Subscription_findOne_def
        ex_defs)
  have d1: "Payment_create (invoice_payment ex_invoice ex_sub ex_user ''pi_1'' ''initial_payment'')
     ex_paid_world = Inl DuplicateKey"
    by (simp add: Payment_create_def Payment_valid_def invoice_payment_def enum_defs ex_defs)
  have d2: "Payment_create (intent_payment ex_intent ex_sub ex_user None (Some ''pm_1''))
     ex_paid_world = Inl DuplicateKey"
    by (simp add: Payment_create_def Payment_valid_def intent_payment_def intent_paymentType_def
        truthy_str_def enum_defs ex_defs)
  have d: "invoice_create_payment 1000 ex_invoice ex_sub ''initial_payment'' ''pi_1'' ex_paid_world
     = (Done, ex_paid_world)"
    using u d1
    by (simp add: invoice_create_payment_def invoice_upgrade_check_def
        shouldUpgradeToRecurring_def ex_sub_def)
  have ids: "map pay_id (payments ex_paid_world) = [1]" by (simp add: ex_defs)
  from duplicate_key_is_success[of ex_paid_world ex_sub ex_user ex_invoice "''pi_1''"
      "''initial_payment''" 1000 ex_intent None "Some ''pm_1''"] isub u d2
  have f: "fst (intent_create_payment ex_intent None (Some ''pm_1'') ex_paid_world) = Done \<and>
     map pay_id (payments (snd (intent_create_payment ex_intent None (Some ''pm_1'')
                                  ex_paid_world))) = [1]"
    by (simp add: ids)
  show ?thesis using d1 d d2 f by simp
qed

text \<open>
  An invoice that carries no payment intent but a charge is recorded under the
  charge's payment intent. An invoice that carries neither is recorded under the id
  derived from the invoice, and the intent's event then adds a second row for the
  same transaction.
\<close>

lemma ex_invoice_by_charge:
  "getInvoicePaymentIntentId (ex_world\<lparr>remote_charges := [(''ch_1'', Some ''pi_1'')]\<rparr>)
     (ex_invoice\<lparr>inv_payment_intent := None, inv_charge := Some ''ch_1''\<rparr>) = Some ''pi_1'' \<and>
   getInvoicePaymentIntentId ex_world
     (ex_invoice\<lparr>inv_payment_intent := None, inv_charge := Some ''ch_1''\<rparr>) = None \<and>
   getInvoicePaymentIntentId ex_world (ex_invoice\<lparr>inv_payment_intent := None\<rparr>) = None \<and>
   getInvoicePaymentIntentId ex_world ex_invoice = Some ''pi_1''"
  by (simp add: getInvoicePaymentIntentId_def truthy_str_def ex_defs)

lemma ex_invoice_without_intent:
  "map pay_stripePaymentIntentId
     (payments (snd (handlePaymentIntentSucceeded ex_intent
        (snd (handleInvoicePaymentSucceeded 1000 (ex_invoice\<lparr>inv_payment_intent := None\<rparr>)
                ex_world)))))
     = [''invoice_in_1'', ''pi_1'']"
proof -
  let ?i = "ex_invoice\<lparr>inv_payment_intent := None\<rparr>"
  let ?w = "ex_world\<lparr>obj_InvoiceId := Some ''in_1''\<rparr>"
  let ?r = "(invoice_payment ?i ex_sub ex_user ''invoice_in_1'' ''initial_payment'')\<lparr>pay_id := 1\<rparr>"
  let ?w1 = "?w\<lparr>payments := [?r]\<rparr>"
  have c: "Payment_create (invoice_payment ?i ex_sub ex_user ''invoice_in_1'' ''initial_payment'') ?w
             = Inr ?w1"
    by (simp add: Payment_create_def Payment_valid_def invoice_payment_def fresh_id_def
        enum_defs ex_defs)
  have h1: "handleInvoicePaymentSucceeded 1000 ?i ex_world = (Done, ?w1)"
    using c
    by (simp add: handleInvoicePaymentSucceeded_def Let_def Subscription_findOne_def
        getInvoicePaymentIntentId_def truthy_str_def invoice_paymentType_def
        invoice_fallback_def Payment_findOne_def User_findById_def ex_defs)
  have f: "Payment_findOne ?w1 (\<lambda>p. pay_stripePaymentIntentId p = pi_id ex_intent) = None"
    by (simp add: Payment_findOne_def invoice_payment_def ex_intent_def)
  have isub: "intent_subscription ex_intent ?w1 = Some ex_sub"
    by (simp add: intent_subscription_def truthy_str_def the_str_def Subscription_findOne_def
        ex_defs)
  have u: "User_findById ?w1 (sub_user ex_sub) = Some ex_user"
    by (simp add: User_findById_def ex_defs)
  have ex: "extractCardDetailsFromPaymentIntent ?w1 (pi_id ex_intent)
              = extractCardDetailsFromPaymentIntent ex_world ''pi_1''"
    by (simp add: extractCardDetailsFromPaymentIntent_def ex_intent_def ex_world_def)
  let ?c = "fst (extractCardDetailsFromPaymentIntent ex_world ''pi_1'')"
  have c2: "Payment_create (intent_payment ex_intent ex_sub ex_user ?c (Some ''pm_1'')) ?w1 =
      Inr (?w1\<lparr>payments := [?r, (intent_payment ex_intent ex_sub ex_user ?c (Some ''pm_1''))
                                   \<lparr>pay_id := 2\<rparr>]\<rparr>)"
    by (simp add: Payment_create_def Payment_valid_def intent_payment_def invoice_payment_def
        intent_paymentType_def truthy_str_def fresh_id_def enum_defs ex_intent_def
        ex_metadata_def ex_sub_def)
  have h2: "handlePaymentIntentSucceeded ex_intent ?w1 =
      (Done, ?w1\<lparr>payments := [?r, (intent_payment ex_intent ex_sub ex_user ?c (Some ''pm_1''))
                                    \<lparr>pay_id := 2\<rparr>]\<rparr>)"
    using f isub u c2 ex
    by (simp add: handlePaymentIntentSucceeded_def case_prod_beta ex_extract
        intent_create_payment_def)
  show ?thesis
    apply (simp only: h1 h2 snd_conv)
    apply (simp add: invoice_payment_def intent_payment_def ex_intent_def)
    done
qed

text \<open>
  Claim C1 fails in the code when the invoice's event comes first. On the example,
  \<open>invoice.payment_succeeded\<close> for \<open>in_1\<close> stores the row under \<open>pi_1\<close> with no card
  details. \<open>payment_intent.succeeded\<close> for \<open>pi_1\<close> then finds that row, and the
  provider gives the card (visa, 4242), but the row is left without card details:
  the condition of the assignment, \<open>cardDetails && !payment.cardDetails\<close>, is false,
  the value read from the document being an object. Both orders leave one row, with
  the status \<open>succeeded\<close> and the amount 200; only when the intent's event comes first
  does the row have the card.
\<close>

theorem invoice_then_intent_no_card:
  "extractCardDetailsFromPaymentIntent ex_world ''pi_1'' =
     (Some \<lparr>brand = Some ''visa'', last4 = Some ''4242'', expMonth = Some 12,
             expYear = Some 2030, funding = Some ''credit'', country = Some ''DE''\<rparr>,
      Some ''pm_1'') \<and>
   map (\<lambda>p. (pay_stripePaymentIntentId p, pay_status p, pay_amount p, pay_cardDetails p))
     (payments (snd (handlePaymentIntentSucceeded ex_intent
                       (snd (handleInvoicePaymentSucceeded 1000 ex_invoice ex_world)))))
     = [(''pi_1'', ''succeeded'', 200, None)] \<and>
   map (\<lambda>p. (pay_stripePaymentIntentId p, pay_status p, pay_amount p, pay_cardDetails p))
     (payments (snd (handleInvoicePaymentSucceeded 1000 ex_invoice
                       (snd (handlePaymentIntentSucceeded ex_intent ex_world)))))
     = [(''pi_1'', ''succeeded'', 200,
         Some \<lparr>brand = Some ''visa'', last4 = Some ''4242'', expMonth = Some 12,
                 expYear = Some 2030, funding = Some ''credit'', country = Some ''DE''\<rparr>)]"
proof -
  have e: "payments ex_world = []" by (simp add: ex_world_def)
  have amt: "num_or (inv_amount_paid ex_invoice) (num_or (inv_amount_due ex_invoice) 0) = 200"
    "pi_amount ex_intent = 200" "pi_id ex_intent = ''pi_1''"
    by (simp_all add: num_or_def ex_invoice_def ex_intent_def)
  have b: "map (\<lambda>p. (pay_stripePaymentIntentId p, pay_status p, pay_amount p, pay_cardDetails p))
     (payments (snd (handlePaymentIntentSucceeded ex_intent
                       (snd (handleInvoicePaymentSucceeded 1000 ex_invoice ex_world)))))
     = [(''pi_1'', ''succeeded'', 200, None)]"
    using invoice_then_intent[OF ex_same_transaction, of 1000] by (auto simp: e amt)
  have c: "map (\<lambda>p. (pay_stripePaymentIntentId p, pay_status p, pay_amount p, pay_cardDetails p))
     (payments (snd (handleInvoicePaymentSucceeded 1000 ex_invoice
                       (snd (handlePaymentIntentSucceeded ex_intent ex_world)))))
     = [(''pi_1'', ''succeeded'', 200,
         Some \<lparr>brand = Some ''visa'', last4 = Some ''4242'', expMonth = Some 12,
                 expYear = Some 2030, funding = Some ''credit'', country = Some ''DE''\<rparr>)]"
    using intent_then_invoice[OF ex_same_transaction, of 1000] by (auto simp: e amt ex_extract)
  show ?thesis using ex_extract b c by simp
qed

end
